theory Spec2Isabelle
  imports Main "HOL-Library.Monad_Syntax"
begin

section \<open>Permission model\<close>

text \<open>
  The permission names of \<^verbatim>\<open>PERMISSION_KEYS\<close> (src/src/App.jsx, lines 255-261). Every
  permission object the application builds (templates, the check boxes rendered with
  \<^verbatim>\<open>PERMISSION_KEYS.map\<close>, copies of both) has its keys among these names and
  boolean values.
\<close>

datatype perm_key =
    UseAccounts
  | RetrieveAccounts
  | ListAccounts
  | AddAccounts
  | UpdateAccountContent
  | UpdateAccountProperties
  | InitiateCPMAccountManagementOperations
  | SpecifyNextAccountContent
  | RenameAccounts
  | DeleteAccounts
  | UnlockAccounts
  | ManageSafe
  | ManageSafeMembers
  | BackupSafe
  | ViewAuditLog
  | ViewSafeMembers
  | AccessWithoutConfirmation
  | CreateFolders
  | DeleteFolders
  | MoveAccountsAndFolders
  | RequestsAuthorizationLevel1
  | RequestsAuthorizationLevel2

definition PERMISSION_KEYS :: "perm_key list" where
  "PERMISSION_KEYS =
    [UseAccounts, RetrieveAccounts, ListAccounts,
     AddAccounts, UpdateAccountContent, UpdateAccountProperties,
     InitiateCPMAccountManagementOperations, SpecifyNextAccountContent, RenameAccounts,
     DeleteAccounts, UnlockAccounts, ManageSafe,
     ManageSafeMembers, BackupSafe, ViewAuditLog,
     ViewSafeMembers, AccessWithoutConfirmation, CreateFolders,
     DeleteFolders, MoveAccountsAndFolders, RequestsAuthorizationLevel1,
     RequestsAuthorizationLevel2]"

fun key_name :: "perm_key \<Rightarrow> string" where
  "key_name UseAccounts = ''UseAccounts''"
| "key_name RetrieveAccounts = ''RetrieveAccounts''"
| "key_name ListAccounts = ''ListAccounts''"
| "key_name AddAccounts = ''AddAccounts''"
| "key_name UpdateAccountContent = ''UpdateAccountContent''"
| "key_name UpdateAccountProperties = ''UpdateAccountProperties''"
| "key_name InitiateCPMAccountManagementOperations = ''InitiateCPMAccountManagementOperations''"
| "key_name SpecifyNextAccountContent = ''SpecifyNextAccountContent''"
| "key_name RenameAccounts = ''RenameAccounts''"
| "key_name DeleteAccounts = ''DeleteAccounts''"
| "key_name UnlockAccounts = ''UnlockAccounts''"
| "key_name ManageSafe = ''ManageSafe''"
| "key_name ManageSafeMembers = ''ManageSafeMembers''"
| "key_name BackupSafe = ''BackupSafe''"
| "key_name ViewAuditLog = ''ViewAuditLog''"
| "key_name ViewSafeMembers = ''ViewSafeMembers''"
| "key_name AccessWithoutConfirmation = ''AccessWithoutConfirmation''"
| "key_name CreateFolders = ''CreateFolders''"
| "key_name DeleteFolders = ''DeleteFolders''"
| "key_name MoveAccountsAndFolders = ''MoveAccountsAndFolders''"
| "key_name RequestsAuthorizationLevel1 = ''RequestsAuthorizationLevel1''"
| "key_name RequestsAuthorizationLevel2 = ''RequestsAuthorizationLevel2''"

text \<open>
  A permission object: its own properties in insertion order, as JavaScript enumerates
  them (no key is integer-like), each with its boolean value.
\<close>

type_synonym permissions = "(perm_key \<times> bool) list"

definition TEMPLATE_PAM :: permissions where
  "TEMPLATE_PAM =
    [(UseAccounts, True), (RetrieveAccounts, True),
     (ListAccounts, True), (AddAccounts, True),
     (UpdateAccountContent, True), (UpdateAccountProperties, True),
     (InitiateCPMAccountManagementOperations, True), (SpecifyNextAccountContent, True),
     (RenameAccounts, True), (DeleteAccounts, True),
     (UnlockAccounts, True), (ManageSafe, True),
     (ManageSafeMembers, True), (BackupSafe, True),
     (ViewAuditLog, True), (ViewSafeMembers, True),
     (AccessWithoutConfirmation, True), (CreateFolders, True),
     (DeleteFolders, True), (MoveAccountsAndFolders, True),
     (RequestsAuthorizationLevel1, False), (RequestsAuthorizationLevel2, False)]"

definition TEMPLATE_SM_HOLDER :: permissions where
  "TEMPLATE_SM_HOLDER =
    [(UseAccounts, False), (RetrieveAccounts, False),
     (ListAccounts, True), (AddAccounts, True),
     (UpdateAccountContent, False), (UpdateAccountProperties, True),
     (InitiateCPMAccountManagementOperations, False), (SpecifyNextAccountContent, False),
     (RenameAccounts, True), (DeleteAccounts, True),
     (UnlockAccounts, False), (ManageSafe, False),
     (ManageSafeMembers, True), (BackupSafe, False),
     (ViewAuditLog, True), (ViewSafeMembers, True),
     (AccessWithoutConfirmation, False), (CreateFolders, True),
     (DeleteFolders, True), (MoveAccountsAndFolders, True),
     (RequestsAuthorizationLevel1, False), (RequestsAuthorizationLevel2, False)]"

definition TEMPLATE_SM_PROV :: permissions where
  "TEMPLATE_SM_PROV =
    [(UseAccounts, True), (RetrieveAccounts, True),
     (ListAccounts, True), (AddAccounts, False),
     (UpdateAccountContent, False), (UpdateAccountProperties, False),
     (InitiateCPMAccountManagementOperations, False), (SpecifyNextAccountContent, False),
     (RenameAccounts, False), (DeleteAccounts, False),
     (UnlockAccounts, False), (ManageSafe, False),
     (ManageSafeMembers, False), (BackupSafe, False),
     (ViewAuditLog, False), (ViewSafeMembers, True),
     (AccessWithoutConfirmation, True), (CreateFolders, False),
     (DeleteFolders, False), (MoveAccountsAndFolders, False),
     (RequestsAuthorizationLevel1, False), (RequestsAuthorizationLevel2, False)]"

definition TEMPLATE_SM_APP :: permissions where
  "TEMPLATE_SM_APP =
    [(UseAccounts, True), (RetrieveAccounts, True),
     (ListAccounts, True), (AddAccounts, True),
     (UpdateAccountContent, True), (UpdateAccountProperties, True),
     (InitiateCPMAccountManagementOperations, True), (SpecifyNextAccountContent, True),
     (RenameAccounts, True), (DeleteAccounts, True),
     (UnlockAccounts, True), (ManageSafe, False),
     (ManageSafeMembers, False), (BackupSafe, False),
     (ViewAuditLog, True), (ViewSafeMembers, True),
     (AccessWithoutConfirmation, False), (CreateFolders, True),
     (DeleteFolders, False), (MoveAccountsAndFolders, False),
     (RequestsAuthorizationLevel1, False), (RequestsAuthorizationLevel2, False)]"

definition TEMPLATE_NONE :: permissions where
  "TEMPLATE_NONE =
    [(UseAccounts, False), (RetrieveAccounts, False),
     (ListAccounts, False), (AddAccounts, False),
     (UpdateAccountContent, False), (UpdateAccountProperties, False),
     (InitiateCPMAccountManagementOperations, False), (SpecifyNextAccountContent, False),
     (RenameAccounts, False), (DeleteAccounts, False),
     (UnlockAccounts, False), (ManageSafe, False),
     (ManageSafeMembers, False), (BackupSafe, False),
     (ViewAuditLog, False), (ViewSafeMembers, False),
     (AccessWithoutConfirmation, False), (CreateFolders, False),
     (DeleteFolders, False), (MoveAccountsAndFolders, False),
     (RequestsAuthorizationLevel1, False), (RequestsAuthorizationLevel2, False)]"

definition TEMPLATE_FULL :: permissions where
  "TEMPLATE_FULL =
    [(UseAccounts, True), (RetrieveAccounts, True),
     (ListAccounts, True), (AddAccounts, True),
     (UpdateAccountContent, True), (UpdateAccountProperties, True),
     (InitiateCPMAccountManagementOperations, True), (SpecifyNextAccountContent, True),
     (RenameAccounts, True), (DeleteAccounts, True),
     (UnlockAccounts, True), (ManageSafe, True),
     (ManageSafeMembers, True), (BackupSafe, True),
     (ViewAuditLog, True), (ViewSafeMembers, True),
     (AccessWithoutConfirmation, True), (CreateFolders, True),
     (DeleteFolders, True), (MoveAccountsAndFolders, True),
     (RequestsAuthorizationLevel1, False), (RequestsAuthorizationLevel2, False)]"

text \<open>\<^verbatim>\<open>PERM_TEMPLATES\<close> (lines 246-253), in declaration order, which is the order of
  \<^verbatim>\<open>Object.entries\<close>.\<close>

definition PERM_TEMPLATES :: "(string \<times> permissions) list" where
  "PERM_TEMPLATES =
    [(''PAM'', TEMPLATE_PAM),
     (''SM-HOLDER'', TEMPLATE_SM_HOLDER),
     (''SM-PROV'', TEMPLATE_SM_PROV),
     (''SM-APP'', TEMPLATE_SM_APP),
     (''NONE'', TEMPLATE_NONE),
     (''FULL'', TEMPLATE_FULL)]"

subsection \<open>Role detection\<close>

text \<open>
  \<^verbatim>\<open>JSON.stringify\<close> on a permission object: the properties in insertion order as
  \<^verbatim>\<open>"key":value\<close>, separated by commas, between braces. The key names need no escaping.
\<close>

definition json_bool :: "bool \<Rightarrow> string" where
  "json_bool b = (if b then ''true'' else ''false'')"

definition json_property :: "perm_key \<times> bool \<Rightarrow> string" where
  "json_property kv = CHR 0x22 # key_name (fst kv) @ CHR 0x22 # '':'' @ json_bool (snd kv)"

fun json_members :: "permissions \<Rightarrow> string" where
  "json_members [] = []"
| "json_members [kv] = json_property kv"
| "json_members (kv # kv' # rest) = json_property kv @ '','' @ json_members (kv' # rest)"

definition JSON_stringify :: "permissions \<Rightarrow> string" where
  "JSON_stringify p = ''{'' @ json_members p @ ''}''"

text \<open>
  \<^verbatim>\<open>detectRoleFromPermissions\<close> (lines 274-281): the loop over
  \<^verbatim>\<open>Object.entries(PERM_TEMPLATES)\<close> returns at the first template whose serialisation is
  that of the argument; after the loop the result is \<^verbatim>\<open>'Custom'\<close>.
\<close>

fun detect_loop :: "(string \<times> permissions) list \<Rightarrow> permissions \<Rightarrow> string" where
  "detect_loop [] permissions = ''Custom''"
| "detect_loop ((roleName, rolePerms) # entries) permissions =
     (if JSON_stringify permissions = JSON_stringify rolePerms then roleName
      else detect_loop entries permissions)"

definition detectRoleFromPermissions :: "permissions \<Rightarrow> string" where
  "detectRoleFromPermissions permissions = detect_loop PERM_TEMPLATES permissions"

text \<open>
  Equality of two permission objects by value, whatever the order of their keys: the
  same value (or absence) under every permission name.
\<close>

definition deep_equal :: "permissions \<Rightarrow> permissions \<Rightarrow> bool" where
  "deep_equal p t = list_all (\<lambda>k. map_of p k = map_of t k) PERMISSION_KEYS"

text \<open>The all-false permission set with the last key inserted first.\<close>

definition NONE_reordered :: permissions where
  "NONE_reordered = last TEMPLATE_NONE # butlast TEMPLATE_NONE"

section \<open>JavaScript values\<close>

text \<open>
  The values that reach the code from JSON responses and from the mirrored records.
  Numbers are modelled by the integers (the retention counts and ids of the vault API);
  \<open>JUndefined\<close> is also the value of a property that an object does not have.
\<close>

datatype js =
    JUndefined
  | JNull
  | JBool bool
  | JNum int
  | JStr string
  | JArr "js list"
  | JObj "(string \<times> js) list"

text \<open>The conversion to boolean that \<^verbatim>\<open>!x\<close>, \<^verbatim>\<open>x || y\<close> and \<^verbatim>\<open>x ? y : z\<close> apply.\<close>

fun truthy :: "js \<Rightarrow> bool" where
  "truthy JUndefined = False"
| "truthy JNull = False"
| "truthy (JBool b) = b"
| "truthy (JNum n) = (n \<noteq> 0)"
| "truthy (JStr s) = (s \<noteq> [])"
| "truthy (JArr xs) = True"
| "truthy (JObj kvs) = True"

text \<open>\<^verbatim>\<open>a || b\<close> on values.\<close>

definition js_or :: "js \<Rightarrow> js \<Rightarrow> js" where
  "js_or a b = (if truthy a then a else b)"

text \<open>
  The decimal digits of a number, as the string conversion writes an integer of a
  magnitude below \<open>10\<^sup>2\<^sup>1\<close> (from there on JavaScript writes an exponent).
\<close>

definition digit_char :: "nat \<Rightarrow> char" where
  "digit_char d = ''0123456789'' ! (d mod 10)"

function decimal :: "nat \<Rightarrow> string" where
  "decimal n = (if n < 10 then [digit_char n] else decimal (n div 10) @ [digit_char n])"
  by pat_completeness auto
termination
  by (relation "measure id") auto

definition number_string :: "int \<Rightarrow> string" where
  "number_string i = (if 0 \<le> i then decimal (nat i) else CHR ''-'' # decimal (nat (- i)))"

text \<open>\<^verbatim>\<open>Array.prototype.join\<close> on strings already converted.\<close>

fun join :: "string \<Rightarrow> string list \<Rightarrow> string" where
  "join sep [] = []"
| "join sep [s] = s"
| "join sep (s # t # ts) = s @ sep @ join sep (t # ts)"

text \<open>
  The string conversion of template literals, of \<^verbatim>\<open>new Error(x)\<close> and of
  \<^verbatim>\<open>localStorage.setItem\<close>. An array joins its elements with commas, with the empty
  string for \<^verbatim>\<open>null\<close> and \<^verbatim>\<open>undefined\<close>.
\<close>

fun to_string :: "js \<Rightarrow> string" where
  "to_string JUndefined = ''undefined''"
| "to_string JNull = ''null''"
| "to_string (JBool b) = (if b then ''true'' else ''false'')"
| "to_string (JNum n) = number_string n"
| "to_string (JStr s) = s"
| "to_string (JArr xs) =
     join '','' (map (\<lambda>x. if x = JUndefined \<or> x = JNull then [] else to_string x) xs)"
| "to_string (JObj kvs) = ''[object Object]''"


text \<open>
  Reading a property of a value that is neither \<^verbatim>\<open>null\<close> nor \<^verbatim>\<open>undefined\<close>. Only the
  properties \<^verbatim>\<open>token\<close>, \<^verbatim>\<open>error\<close> and \<^verbatim>\<open>message\<close> and the field names of the vault's
  records are read from response bodies, and no string, number, boolean or array has
  them.
\<close>

definition get_prop :: "js \<Rightarrow> string \<Rightarrow> js" where
  "get_prop v k =
     (case v of
        JObj kvs \<Rightarrow> (case map_of kvs k of Some x \<Rightarrow> x | None \<Rightarrow> JUndefined)
      | _ \<Rightarrow> JUndefined)"

definition nullish :: "js \<Rightarrow> bool" where
  "nullish v = (v = JUndefined \<or> v = JNull)"

text \<open>
  The message of the \<^verbatim>\<open>TypeError\<close> raised by reading property \<open>k\<close> of \<^verbatim>\<open>null\<close> or
  \<^verbatim>\<open>undefined\<close> (the wording of V8).
\<close>

definition type_error_message :: "js \<Rightarrow> string \<Rightarrow> string" where
  "type_error_message v k =
     ''Cannot read properties of '' @ to_string v @ '' (reading '' @ [CHR 0x27] @ k @ [CHR 0x27] @ '')''"

text \<open>A notification: the arguments of one call of \<^verbatim>\<open>showNotification(message, type)\<close>.\<close>

type_synonym notification = "string \<times> string"

text \<open>The check mark U+2713 and the ballot X U+2717 of the messages, in UTF-8.\<close>

definition check_mark :: string where
  "check_mark = [CHR 0xE2, CHR 0x9C, CHR 0x93]"

definition ballot_x :: string where
  "ballot_x = [CHR 0xE2, CHR 0x9C, CHR 0x97]"

section \<open>The network\<close>

text \<open>
  What \<^verbatim>\<open>fetch\<close> gives back: the promise rejects with an error (its message), or
  resolves to a response. \<open>json\<close> is the outcome of \<^verbatim>\<open>response.json()\<close>: the parsed body,
  or the message of the error it rejects with when the body is not JSON.
\<close>

record response =
  ok :: bool
  status :: nat
  statusText :: string
  json :: "string + js"

datatype fetch_result = Rejected string | Resolved response

record request =
  url :: string
  http_method :: string
  authorization :: "string option"
  body :: "js option"

text \<open>
  The message of the error raised by
  \<^verbatim>\<open>throw new Error(errorData.error || errorData.message || fallback)\<close>, where
  \<^verbatim>\<open>errorData = await response.json().catch(() => ({}))\<close>; when the body is \<^verbatim>\<open>null\<close> the
  first property read raises a \<^verbatim>\<open>TypeError\<close> instead.
\<close>

definition errorData_of :: "response \<Rightarrow> js" where
  "errorData_of r = (case json r of Inl m \<Rightarrow> JObj [] | Inr d \<Rightarrow> d)"

definition failure_message :: "js \<Rightarrow> string \<Rightarrow> string" where
  "failure_message errorData fallback =
     (if nullish errorData then type_error_message errorData ''error''
      else if truthy (get_prop errorData ''error'') then to_string (get_prop errorData ''error'')
      else if truthy (get_prop errorData ''message'') then to_string (get_prop errorData ''message'')
      else fallback)"

section \<open>Session\<close>

record auth_state =
  isLoggedIn :: bool
  vaultUrl :: string
  username :: string
  password :: string
  authToken :: js
  authError :: string
  isAuthenticating :: bool

record local_storage =
  cyberark_token :: "string option"
  cyberark_url :: "string option"

text \<open>
  The initial auth state (lines 318-324): the token is
  \<^verbatim>\<open>localStorage.getItem('cyberark_token') || ''\<close>, the flag is \<^verbatim>\<open>false\<close>.
\<close>

definition init_auth :: "local_storage \<Rightarrow> auth_state" where
  "init_auth ls =
     \<lparr>isLoggedIn = False, vaultUrl = [], username = [], password = [],
      authToken = (case cyberark_token ls of None \<Rightarrow> JStr [] | Some t \<Rightarrow> JStr t),
      authError = [], isAuthenticating = False\<rparr>"

text \<open>
  The body of the \<^verbatim>\<open>try\<close> block of \<^verbatim>\<open>authenticate\<close> from the answer of \<^verbatim>\<open>fetch\<close> on
  (lines 363-387): the message of the error it raises, or the token.
\<close>

definition login_token :: "fetch_result \<Rightarrow> string + js" where
  "login_token r =
     (case r of
        Rejected m \<Rightarrow> Inl m
      | Resolved loginResponse \<Rightarrow>
          if \<not> ok loginResponse then
            Inl (failure_message (errorData_of loginResponse)
                  (''Authentication failed: '' @ statusText loginResponse))
          else
            (case json loginResponse of
               Inl m \<Rightarrow> Inl m
             | Inr loginData \<Rightarrow>
                 if nullish loginData then Inl (type_error_message loginData ''token'')
                 else
                   let token = js_or (get_prop loginData ''token'') loginData in
                   if \<not> truthy token then Inl ''No authentication token received from CyberArk''
                   else Inr token))"

text \<open>
  \<^verbatim>\<open>authenticate\<close> (lines 346-410). \<open>fetch\<close> answers the login request; the result is
  the new auth state, the new client storage, the notifications shown and the requests
  sent.
\<close>

definition authenticate ::
  "(request \<Rightarrow> fetch_result) \<Rightarrow> auth_state \<Rightarrow> local_storage
    \<Rightarrow> auth_state \<times> local_storage \<times> notification list \<times> request list" where
  "authenticate fetch s ls =
     (if vaultUrl s = [] \<or> username s = [] \<or> password s = [] then
        let message = ''Please enter PVWA URL, username, and password.'' in
        (s\<lparr>authError := message\<rparr>, ls, [(message, ''error'')], [])
      else
        let loginUrl = vaultUrl s @ ''/auth/login'';
            req = \<lparr>url = loginUrl, http_method = ''POST'', authorization = None,
                   body = Some (JObj [(''username'', JStr (username s)),
                                      (''password'', JStr (password s))])\<rparr>;
            started = (''Authenticating with CyberArk...'', ''info'')
        in
        (case login_token (fetch req) of
           Inr token \<Rightarrow>
             (s\<lparr>authError := [], authToken := token, password := [], isLoggedIn := True,
                isAuthenticating := False\<rparr>,
              ls\<lparr>cyberark_token := Some (to_string token),
                 cyberark_url := Some (vaultUrl s)\<rparr>,
              [started, (check_mark @ '' Successfully authenticated with CyberArk!'', ''success'')],
              [req])
         | Inl m \<Rightarrow>
             let errorMessage =
                   (if m \<noteq> [] then m
                    else ''Authentication failed. Please verify your credentials and try again.'')
             in
             (s\<lparr>authError := errorMessage, isAuthenticating := False\<rparr>, ls,
              [started, (ballot_x @ '' Authentication failed: '' @ errorMessage, ''error'')],
              [req])))"

text \<open>
  The debug button of the login screen (lines 1172-1180), rendered when \<^verbatim>\<open>DEBUG_MODE\<close> is
  set; \<open>now1\<close> and \<open>now2\<close> are the two readings of \<^verbatim>\<open>Date.now()\<close>.
\<close>

definition debug_login ::
  "nat \<Rightarrow> nat \<Rightarrow> auth_state \<Rightarrow> local_storage \<Rightarrow> auth_state \<times> local_storage \<times> notification list" where
  "debug_login now1 now2 s ls =
     (s\<lparr>vaultUrl := ''https://cyberark-dev.local:8443'',
        authToken := JStr (''debug_token_'' @ decimal now1),
        isLoggedIn := True\<rparr>,
      ls\<lparr>cyberark_token := Some (''debug_token_'' @ decimal now2),
         cyberark_url := Some ''https://cyberark-dev.local:8443''\<rparr>,
      [(check_mark @ '' Debug mode enabled - bypassing authentication'', ''success'')])"

text \<open>The logout button (lines 1295-1304).\<close>

definition logout ::
  "auth_state \<Rightarrow> local_storage \<Rightarrow> auth_state \<times> local_storage \<times> notification list" where
  "logout s ls =
     (s\<lparr>isLoggedIn := False, authToken := JStr [], vaultUrl := [], username := []\<rparr>,
      ls\<lparr>cyberark_token := None, cyberark_url := None\<rparr>,
      [(check_mark @ '' Logged out successfully'', ''success'')])"

text \<open>
  What happens to the session: the three inputs of the login screen (each clears a shown
  error, lines 1131-1156), the two buttons of that screen, the logout button of the main
  screen, and a reload of the page, which starts again from the client storage.
  The login screen is rendered when \<open>isLoggedIn\<close> is false (line 1119), the main screen
  otherwise; an event whose control is not on the screen leaves the state as it is.
  A login is one event: the request is answered before the next event is handled (the
  button is disabled while the request is pending, line 1163).
\<close>

datatype auth_event =
    SetVaultUrl string
  | SetUsername string
  | SetPassword string
  | Authenticate fetch_result
  | DebugLogin nat nat
  | Logout
  | Reload

definition clear_error :: "auth_state \<Rightarrow> auth_state" where
  "clear_error s = (if authError s \<noteq> [] then s\<lparr>authError := []\<rparr> else s)"

fun auth_step :: "bool \<Rightarrow> auth_event \<Rightarrow> auth_state \<times> local_storage \<Rightarrow> auth_state \<times> local_storage" where
  "auth_step debug (SetVaultUrl v) (s, ls) =
     (if isLoggedIn s then (s, ls) else (clear_error (s\<lparr>vaultUrl := v\<rparr>), ls))"
| "auth_step debug (SetUsername v) (s, ls) =
     (if isLoggedIn s then (s, ls) else (clear_error (s\<lparr>username := v\<rparr>), ls))"
| "auth_step debug (SetPassword v) (s, ls) =
     (if isLoggedIn s then (s, ls) else (clear_error (s\<lparr>password := v\<rparr>), ls))"
| "auth_step debug (Authenticate r) (s, ls) =
     (if isLoggedIn s then (s, ls)
      else case authenticate (\<lambda>req. r) s ls of (s', ls', notes, reqs) \<Rightarrow> (s', ls'))"
| "auth_step debug (DebugLogin now1 now2) (s, ls) =
     (if isLoggedIn s \<or> \<not> debug then (s, ls)
      else case debug_login now1 now2 s ls of (s', ls', notes) \<Rightarrow> (s', ls'))"
| "auth_step debug Logout (s, ls) =
     (if isLoggedIn s then case logout s ls of (s', ls', notes) \<Rightarrow> (s', ls') else (s, ls))"
| "auth_step debug Reload (s, ls) = (init_auth ls, ls)"

text \<open>The session after a sequence of events, from the start of the page on storage \<open>ls\<close>.\<close>

definition session_after :: "bool \<Rightarrow> local_storage \<Rightarrow> auth_event list \<Rightarrow> auth_state \<times> local_storage" where
  "session_after debug ls events = foldl (\<lambda>st e. auth_step debug e st) (init_auth ls, ls) events"

text \<open>The token passes the check \<^verbatim>\<open>if (!token)\<close> of the code: it is truthy.\<close>

definition token_truthy :: "auth_state \<Rightarrow> bool" where
  "token_truthy s = truthy (authToken s)"

text \<open>
  The bearer token is not empty: its text, which is what the client storage receives
  and what follows \<^verbatim>\<open>Bearer\<close> in a request, has at least one character.
\<close>

definition token_nonempty :: "auth_state \<Rightarrow> bool" where
  "token_nonempty s = (to_string (authToken s) \<noteq> [])"

text \<open>
  An event that brings no token but a string into the session: every event except a
  login whose response yields a token that is not a string.
\<close>

fun text_token_event :: "auth_event \<Rightarrow> bool" where
  "text_token_event (Authenticate r) =
     (case login_token r of
        Inl m \<Rightarrow> True
      | Inr token \<Rightarrow> (case token of JStr t \<Rightarrow> True | _ \<Rightarrow> False))"
| "text_token_event e = True"

section \<open>Application state\<close>

subsection \<open>Staged creations\<close>

text \<open>The objects that the three creation handlers append to their queues.\<close>

record new_safe =
  ns_name :: string
  ns_description :: string
  ns_CPMManaging :: string
  ns_retentionMode :: string
  ns_retentionValue :: string

record new_member =
  nm_safe :: string
  nm_member :: string
  nm_domain :: string
  nm_perms :: permissions
  nm_roleLabel :: string

record new_account =
  na_object :: string
  na_address :: string
  na_userName :: string
  na_secret :: string
  na_platformId :: string
  na_safeName :: string
  na_automaticManagement :: bool
  na_manualManagementReason :: string
  na_remoteMachines :: string

subsection \<open>Mirrored records\<close>

text \<open>
  The records of the remote mirrors, as the fetch effects build them (lines 544-550,
  572-578, 599-606) and as the initial lists give them. A field the server did not
  send is \<open>JUndefined\<close>; the permissions of a member are absent (\<open>None\<close>) unless an
  edit has set them. The handlers compare ids with \<^verbatim>\<open>===\<close> and \<^verbatim>\<open>includes\<close>, which on
  the strings and numbers that ids are is equality.
\<close>

record safe_rec =
  s_id :: js
  s_name :: js
  s_managingCPM :: js
  s_numberOfVersionsRetention :: js
  s_numberOfDaysRetention :: js

record member_rec =
  m_id :: js
  m_member :: js
  m_domain :: js
  m_safe :: js
  m_role :: js
  m_perms :: "permissions option"

record account_rec =
  a_id :: js
  a_object :: js
  a_username :: js
  a_address :: js
  a_platform :: js
  a_safeName :: js

text \<open>The accumulated edits of the three edit sessions; an absent key is \<open>JUndefined\<close>.\<close>

record safe_edits =
  e_managingCPM :: js
  e_retentionType :: js
  e_retentionValue :: js

record member_edits =
  e_perms :: "permissions option"

record account_edits =
  e_username :: js
  e_address :: js
  e_platform :: js

subsection \<open>Forms, selections and queues\<close>

record safe_form =
  customSafeName :: string
  safeDescription :: string
  managingCPM :: string
  retentionMode :: string
  versionRetention :: string
  daysRetention :: string

record member_form =
  targetSafe :: string
  memberName :: string
  memberDomain :: string
  memberPermissions :: permissions

record account_form =
  accObject :: string
  accAddress :: string
  accUsername :: string
  accPassword :: string
  accPlatformId :: string
  accSafeName :: string
  accAutoMgmt :: bool
  accManualReason :: string
  accRemoteMachines :: string

text \<open>A selection mapping: the keys of the object in insertion order, with their flags.\<close>

type_synonym selection = "(string \<times> bool) list"

record safe_removal =
  availableSafesForRemoval :: "safe_rec list"
  selectedSafesForRemoval :: selection
  safeRemovalFilter :: string

record member_removal =
  availableMembersForRemoval :: "member_rec list"
  selectedMembersForRemoval :: selection
  memberRemovalFilter :: string
  memberRemovalSafeFilter :: string

record account_removal =
  availableAccountsForRemoval :: "account_rec list"
  selectedAccountsForRemoval :: selection
  accountRemovalFilter :: string
  accountRemovalSafeFilter :: string

record safe_modification =
  availableSafesForModification :: "safe_rec list"
  editingSafeId :: js
  editedSafeData :: safe_edits

record member_modification =
  availableMembersForModification :: "member_rec list"
  editingMemberId :: js
  editedMemberData :: member_edits

record account_modification =
  availableAccountsForModification :: "account_rec list"
  editingAccountId :: js
  editedAccountData :: account_edits

text \<open>The nine staging queues.\<close>

record queues =
  stagedSafes :: "new_safe list"
  stagedMembers :: "new_member list"
  stagedAccounts :: "new_account list"
  stagedSafeRemovals :: "safe_rec list"
  stagedMemberRemovals :: "member_rec list"
  stagedAccountRemovals :: "account_rec list"
  stagedSafeModifications :: "safe_rec list"
  stagedMemberModifications :: "member_rec list"
  stagedAccountModifications :: "account_rec list"

record app_state =
  auth :: auth_state
  safeForm :: safe_form
  memberForm :: member_form
  accountForm :: account_form
  safeRemoval :: safe_removal
  memberRemoval :: member_removal
  accountRemoval :: account_removal
  safeModification :: safe_modification
  memberModification :: member_modification
  accountModification :: account_modification
  staged :: queues

text \<open>The initial values of the form fields (lines 413-443).\<close>

definition default_safe_form :: safe_form where
  "default_safe_form =
     \<lparr>customSafeName = [], safeDescription = [], managingCPM = [],
      retentionMode = ''versions'', versionRetention = [], daysRetention = []\<rparr>"

definition default_member_form :: member_form where
  "default_member_form =
     \<lparr>targetSafe = [], memberName = [], memberDomain = ''Vault'', memberPermissions = []\<rparr>"

definition default_account_form :: account_form where
  "default_account_form =
     \<lparr>accObject = [], accAddress = [], accUsername = [], accPassword = [],
      accPlatformId = [], accSafeName = [], accAutoMgmt = True, accManualReason = [],
      accRemoteMachines = []\<rparr>"

definition no_safe_edits :: safe_edits where
  "no_safe_edits =
     \<lparr>e_managingCPM = JUndefined, e_retentionType = JUndefined, e_retentionValue = JUndefined\<rparr>"

definition no_member_edits :: member_edits where
  "no_member_edits = \<lparr>e_perms = None\<rparr>"

definition no_account_edits :: account_edits where
  "no_account_edits = \<lparr>e_username = JUndefined, e_address = JUndefined, e_platform = JUndefined\<rparr>"

definition empty_queues :: queues where
  "empty_queues =
     \<lparr>stagedSafes = [], stagedMembers = [], stagedAccounts = [],
      stagedSafeRemovals = [], stagedMemberRemovals = [], stagedAccountRemovals = [],
      stagedSafeModifications = [], stagedMemberModifications = [],
      stagedAccountModifications = []\<rparr>"

section \<open>Staging: the create path\<close>

text \<open>
  \<^verbatim>\<open>String.prototype.trim\<close> removes the white space and the line terminators of
  ECMAScript from both ends of a string. On the bytes of a string in UTF-8 these are
  the sequences of \<open>white_space\<close>: tab, line feed, vertical tab, form feed, carriage
  return and space, then U+00A0, U+1680, U+2000 to U+200A, U+2028, U+2029, U+202F,
  U+205F, U+3000 and U+FEFF.
\<close>

definition white_space :: "string list" where
  "white_space =
     [[CHR 0x09], [CHR 0x0A], [CHR 0x0B], [CHR 0x0C], [CHR 0x0D], [CHR 0x20],
      [CHR 0xC2, CHR 0xA0],
      [CHR 0xE1, CHR 0x9A, CHR 0x80],
      [CHR 0xE2, CHR 0x80, CHR 0x80], [CHR 0xE2, CHR 0x80, CHR 0x81],
      [CHR 0xE2, CHR 0x80, CHR 0x82], [CHR 0xE2, CHR 0x80, CHR 0x83],
      [CHR 0xE2, CHR 0x80, CHR 0x84], [CHR 0xE2, CHR 0x80, CHR 0x85],
      [CHR 0xE2, CHR 0x80, CHR 0x86], [CHR 0xE2, CHR 0x80, CHR 0x87],
      [CHR 0xE2, CHR 0x80, CHR 0x88], [CHR 0xE2, CHR 0x80, CHR 0x89],
      [CHR 0xE2, CHR 0x80, CHR 0x8A],
      [CHR 0xE2, CHR 0x80, CHR 0xA8], [CHR 0xE2, CHR 0x80, CHR 0xA9],
      [CHR 0xE2, CHR 0x80, CHR 0xAF],
      [CHR 0xE2, CHR 0x81, CHR 0x9F],
      [CHR 0xE3, CHR 0x80, CHR 0x80],
      [CHR 0xEF, CHR 0xBB, CHR 0xBF]]"

text \<open>The length of the sequence of the table that the string starts with, or zero.\<close>

definition leading_length :: "string list \<Rightarrow> string \<Rightarrow> nat" where
  "leading_length table s =
     (case find (\<lambda>ws. take (length ws) s = ws) table of
        Some ws \<Rightarrow> length ws
      | None \<Rightarrow> 0)"

text \<open>Removing the sequences of a table from the front of a string, as long as one is there.\<close>

fun strip_leading :: "string list \<Rightarrow> string \<Rightarrow> string" where
  "strip_leading table [] = []"
| "strip_leading table (c # cs) =
     (case leading_length table (c # cs) of
        0 \<Rightarrow> c # cs
      | Suc n \<Rightarrow> strip_leading table (drop n cs))"

definition trimStart :: "string \<Rightarrow> string" where
  "trimStart s = strip_leading white_space s"

definition trimEnd :: "string \<Rightarrow> string" where
  "trimEnd s = rev (strip_leading (map rev white_space) (rev s))"

definition trim :: "string \<Rightarrow> string" where
  "trim s = trimEnd (trimStart s)"

text \<open>
  Each handler maps the state to the new state and the notifications it shows. None of
  them reaches the API client, so none sends a request.
\<close>

text \<open>\<^verbatim>\<open>handleAddSafeToStage\<close> (lines 620-642).\<close>

definition handleAddSafeToStage :: "app_state \<Rightarrow> app_state \<times> notification list" where
  "handleAddSafeToStage st =
     (let f = safeForm st in
      if trim (customSafeName f) = [] then (st, [(''Please enter a Safe name!'', ''error'')])
      else
        let retentionValue =
              (if retentionMode f = ''versions'' then versionRetention f else daysRetention f)
        in
        if retentionValue = [] then
          (st, [(''Please enter '' @
                 (if retentionMode f = ''versions'' then ''number of versions'' else ''number of days'')
                 @ '' for retention!'', ''error'')])
        else
          let newSafe = \<lparr>ns_name = customSafeName f, ns_description = safeDescription f,
                          ns_CPMManaging = managingCPM f, ns_retentionMode = retentionMode f,
                          ns_retentionValue = retentionValue\<rparr>
          in
          (st\<lparr>staged := (staged st)\<lparr>stagedSafes := stagedSafes (staged st) @ [newSafe]\<rparr>,
              safeForm := f\<lparr>customSafeName := [], safeDescription := [], managingCPM := [],
                            retentionMode := ''versions'', versionRetention := [],
                            daysRetention := []\<rparr>\<rparr>,
           []))"

text \<open>\<^verbatim>\<open>handleAddCustomMember\<close> (lines 669-680).\<close>

definition handleAddCustomMember :: "app_state \<Rightarrow> app_state \<times> notification list" where
  "handleAddCustomMember st =
     (let f = memberForm st in
      if targetSafe f = [] \<or> memberName f = [] then
        (st, [(''Please specify a target Safe and member name!'', ''error'')])
      else
        let detectedRole = detectRoleFromPermissions (memberPermissions f) in
        (st\<lparr>staged := (staged st)\<lparr>stagedMembers := stagedMembers (staged st) @
                [\<lparr>nm_safe = targetSafe f, nm_member = memberName f, nm_domain = memberDomain f,
                  nm_perms = memberPermissions f, nm_roleLabel = detectedRole\<rparr>]\<rparr>,
            memberForm := f\<lparr>memberName := []\<rparr>\<rparr>,
         []))"

text \<open>\<^verbatim>\<open>handleAddAccountToQueue\<close> (lines 686-708).\<close>

definition handleAddAccountToQueue :: "app_state \<Rightarrow> app_state \<times> notification list" where
  "handleAddAccountToQueue st =
     (let f = accountForm st in
      if accObject f = [] \<or> accAddress f = [] \<or> accUsername f = [] \<or> accPlatformId f = []
         \<or> accSafeName f = [] then
        (st, [(''Please fill required fields!'', ''error'')])
      else
        (st\<lparr>staged := (staged st)\<lparr>stagedAccounts := stagedAccounts (staged st) @
                [\<lparr>na_object = accObject f, na_address = accAddress f,
                  na_userName = accUsername f, na_secret = accPassword f,
                  na_platformId = accPlatformId f, na_safeName = accSafeName f,
                  na_automaticManagement = accAutoMgmt f,
                  na_manualManagementReason = (if accAutoMgmt f then [] else accManualReason f),
                  na_remoteMachines = accRemoteMachines f\<rparr>]\<rparr>,
            accountForm := f\<lparr>accAddress := [], accUsername := [], accManualReason := [],
                             accObject := [], accPassword := [], accRemoteMachines := []\<rparr>\<rparr>,
         []))"

section \<open>Staging: the remove path\<close>

text \<open>\<^verbatim>\<open>Object.keys(selected).filter(key => selected[key])\<close>.\<close>

definition selectedIds_of :: "selection \<Rightarrow> string list" where
  "selectedIds_of selected = filter (\<lambda>key. map_of selected key = Some True) (map fst selected)"

text \<open>
  \<^verbatim>\<open>selectedIds.includes(x.id)\<close>: the keys of an object are strings, and \<^verbatim>\<open>includes\<close>
  compares without conversion, so only a string id can be among them.
\<close>

definition includes_id :: "string list \<Rightarrow> js \<Rightarrow> bool" where
  "includes_id selectedIds v = (case v of JStr s \<Rightarrow> s \<in> set selectedIds | _ \<Rightarrow> False)"

text \<open>\<^verbatim>\<open>handleStageSafeRemovals\<close> (lines 714-728).\<close>

definition handleStageSafeRemovals :: "app_state \<Rightarrow> app_state \<times> notification list" where
  "handleStageSafeRemovals st =
     (let r = safeRemoval st;
          selectedIds = selectedIds_of (selectedSafesForRemoval r)
      in
      if selectedIds = [] then
        (st, [(''Please select at least one Safe to remove!'', ''error'')])
      else
        let itemsToRemove =
              filter (\<lambda>safe. includes_id selectedIds (s_id safe) \<and>
                        \<not> list_ex (\<lambda>staged. s_id staged = s_id safe) (stagedSafeRemovals (staged st)))
                (availableSafesForRemoval r)
        in
        if itemsToRemove = [] then
          (st, [(''All selected Safes are already queued!'', ''warning'')])
        else
          (st\<lparr>staged := (staged st)\<lparr>stagedSafeRemovals :=
                  stagedSafeRemovals (staged st) @ itemsToRemove\<rparr>,
              safeRemoval := r\<lparr>selectedSafesForRemoval := [], safeRemovalFilter := []\<rparr>\<rparr>,
           []))"



text \<open>
  A click on a safe of the removal list (lines 3384-3391): unless the safe is staged, its
  key gets the negation of its flag. The key of a computed property is the text of the
  id; an existing key keeps its place, a new one comes last.
\<close>

fun set_key :: "string \<Rightarrow> bool \<Rightarrow> selection \<Rightarrow> selection" where
  "set_key k v [] = [(k, v)]"
| "set_key k v (kv # rest) = (if fst kv = k then (k, v) # rest else kv # set_key k v rest)"

definition toggleSafeSelection :: "safe_rec \<Rightarrow> app_state \<Rightarrow> app_state" where
  "toggleSafeSelection safe st =
     (let r = safeRemoval st;
          stagedSafeIds = map s_id (stagedSafeRemovals (staged st));
          key = to_string (s_id safe)
      in
      if s_id safe \<in> set stagedSafeIds then st
      else st\<lparr>safeRemoval := r\<lparr>selectedSafesForRemoval :=
                set_key key (map_of (selectedSafesForRemoval r) key \<noteq> Some True)
                  (selectedSafesForRemoval r)\<rparr>\<rparr>)"

section \<open>Refreshing the mirror of safes\<close>

text \<open>
  The record that the fetch effect builds from one element of the reply (lines 544-550);
  reading a property of \<^verbatim>\<open>null\<close> raises (\<open>None\<close>).
\<close>

definition format_safe :: "js \<Rightarrow> safe_rec option" where
  "format_safe safe =
     (if nullish safe then None
      else Some \<lparr>s_id = js_or (get_prop safe ''safeName'') (get_prop safe ''id''),
                 s_name = js_or (get_prop safe ''safeName'') (get_prop safe ''name''),
                 s_managingCPM = js_or (get_prop safe ''managingCPM'') (JStr ''CyberArk''),
                 s_numberOfVersionsRetention =
                   js_or (get_prop safe ''numberOfVersionsRetention'') JNull,
                 s_numberOfDaysRetention =
                   js_or (get_prop safe ''numberOfDaysRetention'') JNull\<rparr>)"

text \<open>
  \<^verbatim>\<open>fetchSafes\<close> (lines 540-559), which runs when the safe modification or removal tab
  is activated in a session with a token, from the outcome of \<^verbatim>\<open>safeAPI.getAll()\<close>. A
  reply that is not an array gives the empty list. Both mirrors are replaced; when the
  call or the mapping raises, they stay. The selection mapping is not touched.
\<close>

definition fetchSafes :: "string + js \<Rightarrow> app_state \<Rightarrow> app_state" where
  "fetchSafes reply st =
     (case reply of
        Inl m \<Rightarrow> st
      | Inr safes \<Rightarrow>
          (case (case safes of JArr xs \<Rightarrow> those (map format_safe xs) | _ \<Rightarrow> Some []) of
             None \<Rightarrow> st
           | Some formattedSafes \<Rightarrow>
               st\<lparr>safeRemoval := (safeRemoval st)\<lparr>availableSafesForRemoval := formattedSafes\<rparr>,
                  safeModification := (safeModification st)
                    \<lparr>availableSafesForModification := formattedSafes\<rparr>\<rparr>))"

section \<open>Staging: the modify path\<close>

text \<open>
  The three save handlers look the record up with \<^verbatim>\<open>find\<close>, which gives \<^verbatim>\<open>undefined\<close>
  when no mirrored record has the id. Spreading \<^verbatim>\<open>undefined\<close> adds no property; reading
  a property of it raises a \<^verbatim>\<open>TypeError\<close>, which ends the handler before any state is
  set: the result \<open>None\<close>.
\<close>

definition spread_safe :: "safe_rec option \<Rightarrow> safe_rec" where
  "spread_safe base =
     (case base of
        Some b \<Rightarrow> b
      | None \<Rightarrow> \<lparr>s_id = JUndefined, s_name = JUndefined, s_managingCPM = JUndefined,
                 s_numberOfVersionsRetention = JUndefined, s_numberOfDaysRetention = JUndefined\<rparr>)"

definition spread_member :: "member_rec option \<Rightarrow> member_rec" where
  "spread_member base =
     (case base of
        Some b \<Rightarrow> b
      | None \<Rightarrow> \<lparr>m_id = JUndefined, m_member = JUndefined, m_domain = JUndefined,
                 m_safe = JUndefined, m_role = JUndefined, m_perms = None\<rparr>)"

definition spread_account :: "account_rec option \<Rightarrow> account_rec" where
  "spread_account base =
     (case base of
        Some b \<Rightarrow> b
      | None \<Rightarrow> \<lparr>a_id = JUndefined, a_object = JUndefined, a_username = JUndefined,
                 a_address = JUndefined, a_platform = JUndefined, a_safeName = JUndefined\<rparr>)"

text \<open>A string between double quotes, as the messages show names.\<close>

definition dq :: "string \<Rightarrow> string" where
  "dq s = CHR 0x22 # s @ [CHR 0x22]"

text \<open>The record built by \<^verbatim>\<open>handleSaveModifiedSafe\<close> (lines 777-789).\<close>

definition editedSafe_of :: "safe_rec option \<Rightarrow> safe_edits \<Rightarrow> safe_rec option" where
  "editedSafe_of baseSafe ed =
     do {
       retentionType \<leftarrow>
         (if truthy (e_retentionType ed) then Some (e_retentionType ed)
          else map_option (\<lambda>b. if truthy (s_numberOfVersionsRetention b)
                                then JStr ''versions'' else JStr ''days'') baseSafe);
       retentionValue \<leftarrow>
         (if truthy (e_retentionValue ed) then Some (e_retentionValue ed)
          else map_option (\<lambda>b. if retentionType = JStr ''versions''
                                then s_numberOfVersionsRetention b
                                else s_numberOfDaysRetention b) baseSafe);
       cpm \<leftarrow>
         (if e_managingCPM ed \<noteq> JUndefined then Some (e_managingCPM ed)
          else map_option s_managingCPM baseSafe);
       Some ((spread_safe baseSafe)
               \<lparr>s_managingCPM := cpm,
                s_numberOfVersionsRetention :=
                  (if retentionType = JStr ''versions'' then retentionValue else JUndefined),
                s_numberOfDaysRetention :=
                  (if retentionType = JStr ''days'' then retentionValue else JUndefined)\<rparr>)
     }"

text \<open>\<^verbatim>\<open>handleSaveModifiedSafe\<close> (lines 776-801).\<close>

definition handleSaveModifiedSafe :: "js \<Rightarrow> app_state \<Rightarrow> (app_state \<times> notification list) option" where
  "handleSaveModifiedSafe safeId st =
     (let m = safeModification st;
          baseSafe = find (\<lambda>s. s_id s = safeId) (availableSafesForModification m)
      in
      case editedSafe_of baseSafe (editedSafeData m) of
        None \<Rightarrow> None
      | Some editedSafe \<Rightarrow>
          let stagedIds = map s_id (stagedSafeModifications (staged st));
              m' = m\<lparr>editingSafeId := JNull, editedSafeData := no_safe_edits\<rparr>
          in
          if safeId \<in> set stagedIds then
            Some (st\<lparr>staged := (staged st)\<lparr>stagedSafeModifications :=
                        map (\<lambda>s. if s_id s = safeId then editedSafe else s)
                          (stagedSafeModifications (staged st))\<rparr>,
                     safeModification := m'\<rparr>,
                  [(''Safe '' @ dq (to_string (s_name editedSafe)) @ '' updated in staging!'',
                    ''success'')])
          else
            Some (st\<lparr>staged := (staged st)\<lparr>stagedSafeModifications :=
                        stagedSafeModifications (staged st) @ [editedSafe]\<rparr>,
                     safeModification := m'\<rparr>,
                  [(''Safe '' @ dq (to_string (s_name editedSafe)) @ '' staged for modification!'',
                    ''success'')]))"

text \<open>The record built by \<^verbatim>\<open>handleSaveModifiedMember\<close> (lines 808-814).\<close>

definition editedMember_of :: "member_rec option \<Rightarrow> member_edits \<Rightarrow> member_rec option" where
  "editedMember_of baseMember ed =
     do {
       rolePerms \<leftarrow>
         (case e_perms ed of
            Some p \<Rightarrow> Some p
          | None \<Rightarrow> map_option (\<lambda>b. case m_perms b of Some p \<Rightarrow> p | None \<Rightarrow> []) baseMember);
       Some ((spread_member baseMember)
               \<lparr>m_perms := (case e_perms ed of
                              Some p \<Rightarrow> Some p
                            | None \<Rightarrow> m_perms (spread_member baseMember)),
                m_role := JStr (detectRoleFromPermissions rolePerms)\<rparr>)
     }"

text \<open>\<^verbatim>\<open>handleSaveModifiedMember\<close> (lines 807-825).\<close>

definition handleSaveModifiedMember :: "js \<Rightarrow> app_state \<Rightarrow> (app_state \<times> notification list) option" where
  "handleSaveModifiedMember memberId st =
     (let m = memberModification st;
          baseMember = find (\<lambda>x. m_id x = memberId) (availableMembersForModification m)
      in
      case editedMember_of baseMember (editedMemberData m) of
        None \<Rightarrow> None
      | Some editedMember \<Rightarrow>
          let stagedIds = map m_id (stagedMemberModifications (staged st));
              m' = m\<lparr>editingMemberId := JNull, editedMemberData := no_member_edits\<rparr>
          in
          if memberId \<in> set stagedIds then
            Some (st\<lparr>staged := (staged st)\<lparr>stagedMemberModifications :=
                        map (\<lambda>x. if m_id x = memberId then editedMember else x)
                          (stagedMemberModifications (staged st))\<rparr>,
                     memberModification := m'\<rparr>,
                  [(''Member '' @ dq (to_string (m_member editedMember)) @ '' updated in staging!'',
                    ''success'')])
          else
            Some (st\<lparr>staged := (staged st)\<lparr>stagedMemberModifications :=
                        stagedMemberModifications (staged st) @ [editedMember]\<rparr>,
                     memberModification := m'\<rparr>,
                  [(''Member '' @ dq (to_string (m_member editedMember)) @
                    '' staged for modification!'', ''success'')]))"

text \<open>The record built by \<^verbatim>\<open>handleSaveModifiedAccount\<close> (lines 832-835).\<close>

definition editedAccount_of :: "account_rec option \<Rightarrow> account_edits \<Rightarrow> account_rec" where
  "editedAccount_of baseAccount ed =
     (let b = spread_account baseAccount in
      b\<lparr>a_username := (if e_username ed \<noteq> JUndefined then e_username ed else a_username b),
        a_address := (if e_address ed \<noteq> JUndefined then e_address ed else a_address b),
        a_platform := (if e_platform ed \<noteq> JUndefined then e_platform ed else a_platform b)\<rparr>)"

text \<open>\<^verbatim>\<open>handleSaveModifiedAccount\<close> (lines 831-846); nothing in it can raise.\<close>

definition handleSaveModifiedAccount :: "js \<Rightarrow> app_state \<Rightarrow> (app_state \<times> notification list) option" where
  "handleSaveModifiedAccount accountId st =
     (let m = accountModification st;
          editedAccount =
            editedAccount_of (find (\<lambda>a. a_id a = accountId) (availableAccountsForModification m))
              (editedAccountData m);
          stagedIds = map a_id (stagedAccountModifications (staged st));
          m' = m\<lparr>editingAccountId := JNull, editedAccountData := no_account_edits\<rparr>
      in
      if accountId \<in> set stagedIds then
        Some (st\<lparr>staged := (staged st)\<lparr>stagedAccountModifications :=
                    map (\<lambda>a. if a_id a = accountId then editedAccount else a)
                      (stagedAccountModifications (staged st))\<rparr>,
                 accountModification := m'\<rparr>,
              [(''Account '' @ dq (to_string (a_username editedAccount)) @ '' updated in staging!'',
                ''success'')])
      else
        Some (st\<lparr>staged := (staged st)\<lparr>stagedAccountModifications :=
                    stagedAccountModifications (staged st) @ [editedAccount]\<rparr>,
                 accountModification := m'\<rparr>,
              [(''Account '' @ dq (to_string (a_username editedAccount)) @
                '' staged for modification!'', ''success'')]))"

section \<open>The vault API client\<close>

text \<open>
  \<^verbatim>\<open>encodeURIComponent\<close> on the bytes of a string in UTF-8: letters, digits and
  \<^verbatim>\<open>- _ . ! ~ * ' ( )\<close> stay, every other byte becomes \<^verbatim>\<open>%XX\<close>. A string of bytes
  is well-formed text, on which the function does not raise.
\<close>

definition unreserved :: "char \<Rightarrow> bool" where
  "unreserved c =
     (let n = (of_char c :: nat) in
      (65 \<le> n \<and> n \<le> 90) \<or> (97 \<le> n \<and> n \<le> 122) \<or> (48 \<le> n \<and> n \<le> 57) \<or>
      c \<in> set [CHR ''-'', CHR ''_'', CHR ''.'', CHR ''!'', CHR ''~'', CHR ''*'', CHR 0x27,
                CHR ''('', CHR '')''])"

definition hex_digit :: "nat \<Rightarrow> char" where
  "hex_digit n = ''0123456789ABCDEF'' ! (n mod 16)"

definition encodeURIComponent :: "string \<Rightarrow> string" where
  "encodeURIComponent s =
     concat (map (\<lambda>c. if unreserved c then [c]
                       else [CHR ''%'', hex_digit (of_char c div 16), hex_digit (of_char c mod 16)]) s)"

definition ends_with :: "string \<Rightarrow> string \<Rightarrow> bool" where
  "ends_with s suffix =
     (length suffix \<le> length s \<and> drop (length s - length suffix) s = suffix)"

text \<open>The base URL of the API layer (line 900).\<close>

definition baseURL :: "string \<Rightarrow> string" where
  "baseURL vault =
     (if vault \<noteq> [] \<and> ends_with vault ''/api'' then vault else vault @ ''/api'')"

text \<open>
  The request that \<^verbatim>\<open>makeAPIRequest(endpoint, options)\<close> passes to \<^verbatim>\<open>fetch\<close> (lines
  908-921), with the auth state that the API layer closes over. The arguments are the
  endpoint, the method and the payload of the options; the \<open>body\<close> of a request is the
  payload that \<^verbatim>\<open>JSON.stringify\<close> serialises.
\<close>

type_synonym api_args = "string \<times> string \<times> js option"

definition api_request :: "auth_state \<Rightarrow> api_args \<Rightarrow> request" where
  "api_request a args =
     (case args of
        (endpoint, meth, payload) \<Rightarrow>
          \<lparr>url = baseURL (vaultUrl a) @ endpoint, http_method = meth,
           authorization = Some (''Bearer '' @ to_string (authToken a)),
           body = payload\<rparr>)"

text \<open>
  \<^verbatim>\<open>makeAPIRequest\<close> (lines 907-938). \<open>fetch\<close> answers a request in a state \<open>w\<close> of the
  world outside and gives the next one. The result is the message of the error raised
  or the parsed body, the next state of the world, and the requests sent.
\<close>

definition makeAPIRequest ::
  "('w \<Rightarrow> request \<Rightarrow> fetch_result \<times> 'w) \<Rightarrow> auth_state \<Rightarrow> api_args
    \<Rightarrow> 'w \<Rightarrow> (string + js) \<times> 'w \<times> request list" where
  "makeAPIRequest fetch a args w =
     (let req = api_request a args in
      case fetch w req of
        (Rejected m, w') \<Rightarrow> (Inl (''CyberArk API Request Failed: '' @ m), w', [req])
      | (Resolved response, w') \<Rightarrow>
          if \<not> ok response then
            (Inl (''CyberArk API Request Failed: '' @
                  failure_message (errorData_of response)
                    (''API Error '' @ decimal (status response) @ '': '' @
                     statusText response)),
             w', [req])
          else
            (Inr (case json response of Inl m \<Rightarrow> JObj [] | Inr d \<Rightarrow> d), w', [req]))"

definition perms_object :: "permissions \<Rightarrow> js" where
  "perms_object p = JObj (map (\<lambda>kv. (key_name (fst kv), JBool (snd kv))) p)"

text \<open>A payload built by conditional assignments: the keys whose value is not \<^verbatim>\<open>undefined\<close>.\<close>

definition defined_only :: "(string \<times> js) list \<Rightarrow> js" where
  "defined_only kvs = JObj (filter (\<lambda>kv. snd kv \<noteq> JUndefined) kvs)"

text \<open>
  The methods of the API layer that the deploy handler calls. Each of them returns
  \<^verbatim>\<open>makeAPIRequest(endpoint, options)\<close>; the definition gives the arguments of that call.
\<close>

text \<open>\<^verbatim>\<open>safeAPI\<close> (lines 944-991): \<^verbatim>\<open>create\<close>, \<^verbatim>\<open>update\<close> and \<^verbatim>\<open>delete\<close>.\<close>

definition safeAPI_create :: "js \<Rightarrow> js \<Rightarrow> js \<Rightarrow> js \<Rightarrow> js \<Rightarrow> api_args" where
  "safeAPI_create name description cpm versions days =
     (''/safes'', ''POST'',
      Some (JObj [(''safeName'', name),
                  (''description'', js_or description (JStr [])),
                  (''managingCPM'', cpm),
                  (''numberOfVersionsRetention'', js_or versions JNull),
                  (''numberOfDaysRetention'', js_or days JNull)]))"

definition safeAPI_update :: "js \<Rightarrow> js \<Rightarrow> js \<Rightarrow> js \<Rightarrow> js \<Rightarrow> api_args" where
  "safeAPI_update safeId description cpm versions days =
     (''/safes/'' @ encodeURIComponent (to_string safeId), ''PUT'',
      Some (defined_only [(''description'', description),
                          (''managingCPM'', cpm),
                          (''numberOfVersionsRetention'', versions),
                          (''numberOfDaysRetention'', days)]))"

definition safeAPI_delete :: "js \<Rightarrow> api_args" where
  "safeAPI_delete safeId =
     (''/safes/'' @ encodeURIComponent (to_string safeId), ''DELETE'', None)"

text \<open>\<^verbatim>\<open>memberAPI\<close> (lines 998-1045): \<^verbatim>\<open>add\<close>, \<^verbatim>\<open>updatePermissions\<close> and \<^verbatim>\<open>remove\<close>.\<close>

definition memberAPI_add :: "string \<Rightarrow> new_member \<Rightarrow> api_args" where
  "memberAPI_add safeName memberData =
     (''/safes/'' @ encodeURIComponent safeName @ ''/members'', ''POST'',
      Some (JObj [(''memberName'', js_or (JStr (nm_member memberData)) JUndefined),
                  (''memberType'', JStr ''Domain''),
                  (''searchIn'', js_or (JStr (nm_domain memberData)) (JStr ''Domain'')),
                  (''permissions'', perms_object (nm_perms memberData))]))"

definition memberAPI_updatePermissions :: "js \<Rightarrow> js \<Rightarrow> permissions \<Rightarrow> api_args" where
  "memberAPI_updatePermissions safeName member perms =
     (''/safes/'' @ encodeURIComponent (to_string safeName) @ ''/members/'' @
      encodeURIComponent (to_string member), ''PUT'',
      Some (JObj [(''permissions'', perms_object perms)]))"

definition memberAPI_remove :: "js \<Rightarrow> js \<Rightarrow> api_args" where
  "memberAPI_remove safeName member =
     (''/safes/'' @ encodeURIComponent (to_string safeName) @ ''/members/'' @
      encodeURIComponent (to_string member), ''DELETE'', None)"

text \<open>\<^verbatim>\<open>accountAPI\<close> (lines 1051-1110): \<^verbatim>\<open>create\<close>, \<^verbatim>\<open>update\<close> and \<^verbatim>\<open>delete\<close>.\<close>

definition accountAPI_create :: "new_account \<Rightarrow> api_args" where
  "accountAPI_create accountData =
     (''/accounts'', ''POST'',
      Some (JObj ([(''name'', JStr (na_userName accountData)),
                   (''address'', JStr (na_address accountData)),
                   (''userName'', JStr (na_userName accountData)),
                   (''secret'', JStr (na_secret accountData)),
                   (''platformId'', JStr (na_platformId accountData)),
                   (''safeName'', JStr (na_safeName accountData)),
                   (''automaticManagementEnabled'', JBool (na_automaticManagement accountData)),
                   (''manualManagementReason'',
                      js_or (JStr (na_manualManagementReason accountData)) JNull),
                   (''remoteMachinesAccess'',
                      JStr (if na_remoteMachines accountData \<noteq> [] then ''Yes'' else ''No''))]
                  @ (if na_object accountData \<noteq> []
                     then [(''id'', JStr (na_object accountData))] else []))))"

definition accountAPI_update :: "js \<Rightarrow> js \<Rightarrow> js \<Rightarrow> js \<Rightarrow> js \<Rightarrow> js \<Rightarrow> api_args" where
  "accountAPI_update accountId address secret userName automaticManagement reason =
     (''/accounts/'' @ encodeURIComponent (to_string accountId), ''PUT'',
      Some (defined_only [(''address'', address),
                          (''secret'', secret),
                          (''userName'', userName),
                          (''automaticManagementEnabled'', automaticManagement),
                          (''manualManagementReason'', reason)]))"

definition accountAPI_delete :: "js \<Rightarrow> api_args" where
  "accountAPI_delete accountId =
     (''/accounts/'' @ encodeURIComponent (to_string accountId), ''DELETE'', None)"

section \<open>Deployment\<close>

text \<open>
  One loop of the deploy handler: for each entry of a queue, in order, the notification
  that the call starts, the call, and then the notification of its success, or, when
  the call raised, the notification of the failure with the message of the error; in
  both cases the loop goes on with the next entry. The accumulator holds the state of
  the world, the notifications shown and the requests sent so far.
\<close>

fun for_each ::
  "('a \<Rightarrow> 'w \<Rightarrow> (string + js) \<times> 'w \<times> request list) \<Rightarrow> ('a \<Rightarrow> string) \<Rightarrow> ('a \<Rightarrow> string)
    \<Rightarrow> ('a \<Rightarrow> string) \<Rightarrow> 'a list \<Rightarrow> 'w \<times> notification list \<times> request list
    \<Rightarrow> 'w \<times> notification list \<times> request list" where
  "for_each call starting succeeded failed [] acc = acc"
| "for_each call starting succeeded failed (x # xs) (w, notes, reqs) =
     (case call x w of
        (Inr v, w', sent) \<Rightarrow>
          for_each call starting succeeded failed xs
            (w', notes @ [(starting x, ''info''), (succeeded x, ''success'')], reqs @ sent)
      | (Inl m, w', sent) \<Rightarrow>
          for_each call starting succeeded failed xs
            (w', notes @ [(starting x, ''info''), (failed x @ m, ''error'')], reqs @ sent))"

definition totalItems :: "queues \<Rightarrow> nat" where
  "totalItems q =
     length (stagedSafes q) + length (stagedMembers q) + length (stagedAccounts q) +
     length (stagedSafeRemovals q) + length (stagedMemberRemovals q) +
     length (stagedAccountRemovals q) +
     length (stagedSafeModifications q) + length (stagedMemberModifications q) +
     length (stagedAccountModifications q)"

text \<open>
  The calls and the three messages of the nine loops (lines 1726-1839), in the order of
  the source.
\<close>

definition create_safe_call ::
  "new_safe \<Rightarrow> api_args" where
  "create_safe_call safe =
     safeAPI_create (JStr (ns_name safe)) (JStr (ns_description safe))
       (JStr (ns_CPMManaging safe))
       (if ns_retentionMode safe = ''versions'' then JStr (ns_retentionValue safe) else JNull)
       (if ns_retentionMode safe = ''days'' then JStr (ns_retentionValue safe) else JNull)"

definition add_member_call ::
  "new_member \<Rightarrow> api_args" where
  "add_member_call member = memberAPI_add (nm_safe member) member"

definition create_account_call ::
  "new_account \<Rightarrow> api_args" where
  "create_account_call account = accountAPI_create account"

definition delete_safe_call ::
  "safe_rec \<Rightarrow> api_args" where
  "delete_safe_call safe = safeAPI_delete (s_name safe)"

definition remove_member_call ::
  "member_rec \<Rightarrow> api_args" where
  "remove_member_call member = memberAPI_remove (m_safe member) (m_member member)"

definition delete_account_call ::
  "account_rec \<Rightarrow> api_args" where
  "delete_account_call account = accountAPI_delete (a_object account)"

definition update_safe_call ::
  "safe_rec \<Rightarrow> api_args" where
  "update_safe_call safe =
     safeAPI_update (s_id safe) JUndefined (s_managingCPM safe)
       (js_or (s_numberOfVersionsRetention safe) JNull)
       (js_or (s_numberOfDaysRetention safe) JNull)"

definition update_member_call ::
  "member_rec \<Rightarrow> api_args" where
  "update_member_call member =
     memberAPI_updatePermissions (m_safe member) (m_member member)
       (case m_perms member of Some p \<Rightarrow> p | None \<Rightarrow> [])"

text \<open>
  The entries of the account modification queue have the keys of the mirrored records
  and of the edits; \<^verbatim>\<open>userName\<close>, \<^verbatim>\<open>secret\<close>, \<^verbatim>\<open>automaticManagement\<close> and
  \<^verbatim>\<open>manualManagementReason\<close> are not among them, so the handler reads \<^verbatim>\<open>undefined\<close>.
\<close>

definition update_account_call ::
  "account_rec \<Rightarrow> api_args" where
  "update_account_call account =
     accountAPI_update (a_id account) (a_address account) JUndefined JUndefined
       JUndefined JUndefined"

definition deploy_safe_creates where
  "deploy_safe_creates fetch a =
     for_each (\<lambda>x. makeAPIRequest fetch a (create_safe_call x))
       (\<lambda>safe. ''Creating Safe: '' @ dq (ns_name safe) @ ''...'')
       (\<lambda>safe. check_mark @ '' Safe '' @ dq (ns_name safe) @ '' created successfully!'')
       (\<lambda>safe. ballot_x @ '' Failed to create Safe '' @ dq (ns_name safe) @ '': '')"

definition deploy_member_creates where
  "deploy_member_creates fetch a =
     for_each (\<lambda>x. makeAPIRequest fetch a (add_member_call x))
       (\<lambda>member. ''Adding Member '' @ dq (nm_member member) @ '' to Safe '' @
                  dq (nm_safe member) @ ''...'')
       (\<lambda>member. check_mark @ '' Member '' @ dq (nm_member member) @ '' added to Safe '' @
                  dq (nm_safe member) @ ''!'')
       (\<lambda>member. ballot_x @ '' Failed to add Member '' @ dq (nm_member member) @ '': '')"

definition deploy_account_creates where
  "deploy_account_creates fetch a =
     for_each (\<lambda>x. makeAPIRequest fetch a (create_account_call x))
       (\<lambda>account. ''Creating Account: '' @ dq (na_userName account) @ ''@'' @
                   dq (na_address account) @ ''...'')
       (\<lambda>account. check_mark @ '' Account '' @ dq (na_userName account) @ ''@'' @
                   dq (na_address account) @ '' created!'')
       (\<lambda>account. ballot_x @ '' Failed to create Account '' @ dq (na_userName account) @ '': '')"

definition deploy_safe_removals where
  "deploy_safe_removals fetch a =
     for_each (\<lambda>x. makeAPIRequest fetch a (delete_safe_call x))
       (\<lambda>safe. ''Deleting Safe: '' @ dq (to_string (s_name safe)) @ ''...'')
       (\<lambda>safe. check_mark @ '' Safe '' @ dq (to_string (s_name safe)) @ '' deleted successfully!'')
       (\<lambda>safe. ballot_x @ '' Failed to delete Safe '' @ dq (to_string (s_name safe)) @ '': '')"

definition deploy_member_removals where
  "deploy_member_removals fetch a =
     for_each (\<lambda>x. makeAPIRequest fetch a (remove_member_call x))
       (\<lambda>member. ''Removing Member '' @ dq (to_string (m_member member)) @ '' from Safe '' @
                  dq (to_string (m_safe member)) @ ''...'')
       (\<lambda>member. check_mark @ '' Member '' @ dq (to_string (m_member member)) @
                  '' removed from Safe '' @ dq (to_string (m_safe member)) @ ''!'')
       (\<lambda>member. ballot_x @ '' Failed to remove Member '' @ dq (to_string (m_member member)) @
                  '': '')"

definition deploy_account_removals where
  "deploy_account_removals fetch a =
     for_each (\<lambda>x. makeAPIRequest fetch a (delete_account_call x))
       (\<lambda>account. ''Deleting Account: '' @ dq (to_string (a_username account)) @ ''...'')
       (\<lambda>account. check_mark @ '' Account '' @ dq (to_string (a_username account)) @ '' deleted!'')
       (\<lambda>account. ballot_x @ '' Failed to delete Account '' @
                   dq (to_string (a_username account)) @ '': '')"

definition deploy_safe_modifications where
  "deploy_safe_modifications fetch a =
     for_each (\<lambda>x. makeAPIRequest fetch a (update_safe_call x))
       (\<lambda>safe. ''Updating Safe: '' @ dq (to_string (s_name safe)) @ ''...'')
       (\<lambda>safe. check_mark @ '' Safe '' @ dq (to_string (s_name safe)) @ '' updated successfully!'')
       (\<lambda>safe. ballot_x @ '' Failed to update Safe '' @ dq (to_string (s_name safe)) @ '': '')"

definition deploy_member_modifications where
  "deploy_member_modifications fetch a =
     for_each (\<lambda>x. makeAPIRequest fetch a (update_member_call x))
       (\<lambda>member. ''Updating Member: '' @ dq (to_string (m_member member)) @ ''...'')
       (\<lambda>member. check_mark @ '' Member '' @ dq (to_string (m_member member)) @
                  '' permissions updated!'')
       (\<lambda>member. ballot_x @ '' Failed to update Member '' @ dq (to_string (m_member member)) @
                  '': '')"

definition deploy_account_modifications where
  "deploy_account_modifications fetch a =
     for_each (\<lambda>x. makeAPIRequest fetch a (update_account_call x))
       (\<lambda>account. ''Updating Account: '' @ dq (to_string JUndefined) @ ''...'')
       (\<lambda>account. check_mark @ '' Account '' @ dq (to_string JUndefined) @ '' updated successfully!'')
       (\<lambda>account. ballot_x @ '' Failed to update Account '' @ dq (to_string JUndefined) @ '': '')"

text \<open>
  The handler of the deploy button (lines 1714-1856): the new state, the next state of
  the world outside, the notifications shown and the requests sent, in order. Nothing
  between the loops can raise, so the outer \<^verbatim>\<open>catch\<close> is never entered.
\<close>

definition deploy ::
  "('w \<Rightarrow> request \<Rightarrow> fetch_result \<times> 'w) \<Rightarrow> app_state \<Rightarrow> 'w
    \<Rightarrow> app_state \<times> 'w \<times> notification list \<times> request list" where
  "deploy fetch st w =
     (let q = staged st; a = auth st; total = totalItems q in
      if total = 0 then (st, w, [(''No staged items to deploy!'', ''warning'')], [])
      else
        let io0 = (w, [(''Starting deployment of '' @ decimal total @ '' items...'',
                        ''info'')], []);
            io1 = deploy_safe_creates fetch a (stagedSafes q) io0;
            io2 = deploy_member_creates fetch a (stagedMembers q) io1;
            io3 = deploy_account_creates fetch a (stagedAccounts q) io2;
            io4 = deploy_safe_removals fetch a (stagedSafeRemovals q) io3;
            io5 = deploy_member_removals fetch a (stagedMemberRemovals q) io4;
            io6 = deploy_account_removals fetch a (stagedAccountRemovals q) io5;
            io7 = deploy_safe_modifications fetch a (stagedSafeModifications q) io6;
            io8 = deploy_member_modifications fetch a (stagedMemberModifications q) io7;
            io9 = deploy_account_modifications fetch a (stagedAccountModifications q) io8
        in
        case io9 of
          (w', notes, reqs) \<Rightarrow>
            (st\<lparr>staged := q\<lparr>stagedSafes := [], stagedMembers := [], stagedAccounts := [],
                             stagedSafeRemovals := [], stagedMemberRemovals := [],
                             stagedAccountRemovals := [], stagedSafeModifications := [],
                             stagedMemberModifications := [],
                             stagedAccountModifications := []\<rparr>\<rparr>,
             w',
             notes @ [(check_mark @ '' Deployment completed! '' @ decimal total @
                       '' items processed.'', ''success'')],
             reqs))"

section \<open>Reference notions and example states\<close>

text \<open>
  Role detection as the specification words it: the first template, in declaration
  order, that is equal to the permission set by value, whatever the order of the keys.
\<close>

definition detectRole_spec :: "permissions \<Rightarrow> string" where
  "detectRole_spec p =
     (case find (\<lambda>(roleName, rolePerms). deep_equal p rolePerms) PERM_TEMPLATES of
        Some (roleName, rolePerms) \<Rightarrow> roleName
      | None \<Rightarrow> ''Custom'')"

text \<open>
  The entry of a modification queue as the specification words it: the mirrored record
  merged with the accumulated edits, where an edit wins over the field of the record.
  For a safe, the retention mode of the edits, or else the mode of the record, decides
  which of the two retention fields holds the retention value of the edits, or else of
  the record, and the other one is left undefined. For a member, the role is detected
  again from the permissions.
\<close>

definition merged_safe :: "safe_rec \<Rightarrow> safe_edits \<Rightarrow> safe_rec" where
  "merged_safe b ed =
     (let mode = (if truthy (e_retentionType ed) then e_retentionType ed
                  else if truthy (s_numberOfVersionsRetention b) then JStr ''versions''
                  else JStr ''days'');
          val = (if truthy (e_retentionValue ed) then e_retentionValue ed
                 else if mode = JStr ''versions'' then s_numberOfVersionsRetention b
                 else s_numberOfDaysRetention b)
      in
      \<lparr>s_id = s_id b, s_name = s_name b,
       s_managingCPM =
         (if e_managingCPM ed = JUndefined then s_managingCPM b else e_managingCPM ed),
       s_numberOfVersionsRetention = (if mode = JStr ''versions'' then val else JUndefined),
       s_numberOfDaysRetention = (if mode = JStr ''days'' then val else JUndefined)\<rparr>)"

definition merged_member :: "member_rec \<Rightarrow> member_edits \<Rightarrow> member_rec" where
  "merged_member b ed =
     (let perms = (case e_perms ed of Some p \<Rightarrow> Some p | None \<Rightarrow> m_perms b) in
      \<lparr>m_id = m_id b, m_member = m_member b, m_domain = m_domain b, m_safe = m_safe b,
       m_role = JStr (detectRoleFromPermissions (case perms of Some p \<Rightarrow> p | None \<Rightarrow> [])),
       m_perms = perms\<rparr>)"

definition merged_account :: "account_rec \<Rightarrow> account_edits \<Rightarrow> account_rec" where
  "merged_account b ed =
     \<lparr>a_id = a_id b, a_object = a_object b,
      a_username = (if e_username ed = JUndefined then a_username b else e_username ed),
      a_address = (if e_address ed = JUndefined then a_address b else e_address ed),
      a_platform = (if e_platform ed = JUndefined then a_platform b else e_platform ed),
      a_safeName = a_safeName b\<rparr>"

text \<open>The safes of the removal mirror that the selection mapping marks.\<close>

definition selected_safes :: "app_state \<Rightarrow> safe_rec list" where
  "selected_safes st =
     filter (\<lambda>safe. includes_id (selectedIds_of (selectedSafesForRemoval (safeRemoval st)))
                      (s_id safe))
       (availableSafesForRemoval (safeRemoval st))"



text \<open>A record whose id is already in the removal queue of its kind.\<close>

definition safe_staged :: "app_state \<Rightarrow> safe_rec \<Rightarrow> bool" where
  "safe_staged st safe = (s_id safe \<in> set (map s_id (stagedSafeRemovals (staged st))))"



text \<open>The state in which the application starts on an empty client storage (lines 318-511).\<close>

definition empty_storage :: local_storage where
  "empty_storage = \<lparr>cyberark_token = None, cyberark_url = None\<rparr>"

definition initial_safes :: "safe_rec list" where
  "initial_safes =
     [\<lparr>s_id = JStr ''SAFE-001'', s_name = JStr ''Legacy-Database'', s_managingCPM = JStr ''CyberArk'',
       s_numberOfVersionsRetention = JNum 10, s_numberOfDaysRetention = JNull\<rparr>,
      \<lparr>s_id = JStr ''SAFE-002'', s_name = JStr ''Test-Environment'',
       s_managingCPM = JStr ''VaultManager'',
       s_numberOfVersionsRetention = JNull, s_numberOfDaysRetention = JNum 30\<rparr>,
      \<lparr>s_id = JStr ''SAFE-003'', s_name = JStr ''Archive-2022'', s_managingCPM = JStr ''CyberArk'',
       s_numberOfVersionsRetention = JNum 5, s_numberOfDaysRetention = JNull\<rparr>]"

definition initial_members :: "member_rec list" where
  "initial_members =
     [\<lparr>m_id = JStr ''MEM-001'', m_member = JStr ''user.departed'', m_domain = JStr ''DOMAIN'',
       m_safe = JStr ''SAFE-001'', m_role = JStr ''Contributor'', m_perms = None\<rparr>,
      \<lparr>m_id = JStr ''MEM-002'', m_member = JStr ''temp.contractor'', m_domain = JStr ''DOMAIN'',
       m_safe = JStr ''SAFE-002'', m_role = JStr ''Auditor'', m_perms = None\<rparr>,
      \<lparr>m_id = JStr ''MEM-003'', m_member = JStr ''old.admin'', m_domain = JStr ''Vault'',
       m_safe = JStr ''SAFE-001'', m_role = JStr ''Manager'', m_perms = None\<rparr>]"

definition initial_accounts :: "account_rec list" where
  "initial_accounts =
     [\<lparr>a_id = JStr ''ACC-001'', a_object = JStr ''root'', a_username = JStr ''admin_user'',
       a_address = JStr ''192.168.1.10'', a_platform = JStr ''Linux'',
       a_safeName = JStr ''SAFE-001''\<rparr>,
      \<lparr>a_id = JStr ''ACC-002'', a_object = JStr ''sa'', a_username = JStr ''db_admin'',
       a_address = JStr ''db-server.local'', a_platform = JStr ''SQLServer'',
       a_safeName = JStr ''SAFE-002''\<rparr>,
      \<lparr>a_id = JStr ''ACC-003'', a_object = JStr ''admin'', a_username = JStr ''system_admin'',
       a_address = JStr ''10.0.0.5'', a_platform = JStr ''Windows'',
       a_safeName = JStr ''SAFE-003''\<rparr>]"

definition initial_state :: app_state where
  "initial_state =
     \<lparr>auth = init_auth empty_storage,
      safeForm = default_safe_form,
      memberForm = default_member_form,
      accountForm = default_account_form,
      safeRemoval = \<lparr>availableSafesForRemoval = initial_safes, selectedSafesForRemoval = [],
                     safeRemovalFilter = []\<rparr>,
      memberRemoval = \<lparr>availableMembersForRemoval = initial_members,
                       selectedMembersForRemoval = [], memberRemovalFilter = [],
                       memberRemovalSafeFilter = []\<rparr>,
      accountRemoval = \<lparr>availableAccountsForRemoval = initial_accounts,
                        selectedAccountsForRemoval = [], accountRemovalFilter = [],
                        accountRemovalSafeFilter = []\<rparr>,
      safeModification = \<lparr>availableSafesForModification = initial_safes, editingSafeId = JNull,
                          editedSafeData = no_safe_edits\<rparr>,
      memberModification = \<lparr>availableMembersForModification = initial_members,
                            editingMemberId = JNull, editedMemberData = no_member_edits\<rparr>,
      accountModification = \<lparr>availableAccountsForModification = initial_accounts,
                             editingAccountId = JNull, editedAccountData = no_account_edits\<rparr>,
      staged = empty_queues\<rparr>"

text \<open>The three creation forms filled in.\<close>

definition filled_forms :: app_state where
  "filled_forms =
     initial_state
       \<lparr>safeForm := \<lparr>customSafeName = ''Finance-01'', safeDescription = ''Finance'',
                     managingCPM = ''PasswordManager'', retentionMode = ''days'',
                     versionRetention = [], daysRetention = ''7''\<rparr>,
        memberForm := \<lparr>targetSafe = ''Finance-01'', memberName = ''alice'',
                       memberDomain = ''Domain.example'', memberPermissions = TEMPLATE_SM_APP\<rparr>,
        accountForm := \<lparr>accObject = ''root-01'', accAddress = ''10.0.0.9'', accUsername = ''root'',
                        accPassword = ''secret'', accPlatformId = ''UnixSSH'',
                        accSafeName = ''Finance-01'', accAutoMgmt = False,
                        accManualReason = ''legacy'', accRemoteMachines = ''host1''\<rparr>\<rparr>"

text \<open>The safe form with a name that is one NO-BREAK SPACE.\<close>

definition blank_safe_name :: app_state where
  "blank_safe_name =
     filled_forms\<lparr>safeForm := (safeForm filled_forms)\<lparr>customSafeName := [CHR 0xC2, CHR 0xA0]\<rparr>\<rparr>"

text \<open>The three creation forms with a required field left empty.\<close>

definition incomplete_forms :: app_state where
  "incomplete_forms =
     filled_forms
       \<lparr>safeForm := (safeForm filled_forms)\<lparr>daysRetention := []\<rparr>,
        memberForm := (memberForm filled_forms)\<lparr>memberName := []\<rparr>,
        accountForm := (accountForm filled_forms)\<lparr>accPlatformId := []\<rparr>\<rparr>"

text \<open>
  The first safe, member and account of the mirrors are in the removal queues; the
  first and the second of each are selected.
\<close>

definition mixed_selection :: app_state where
  "mixed_selection =
     initial_state
       \<lparr>safeRemoval := (safeRemoval initial_state)
          \<lparr>selectedSafesForRemoval := [(''SAFE-001'', True), (''SAFE-002'', True)],
           safeRemovalFilter := ''SAFE''\<rparr>,
        memberRemoval := (memberRemoval initial_state)
          \<lparr>selectedMembersForRemoval := [(''MEM-001'', True), (''MEM-002'', True)]\<rparr>,
        accountRemoval := (accountRemoval initial_state)
          \<lparr>selectedAccountsForRemoval := [(''ACC-001'', True), (''ACC-002'', True)]\<rparr>,
        staged := empty_queues
          \<lparr>stagedSafeRemovals := [hd initial_safes],
           stagedMemberRemovals := [hd initial_members],
           stagedAccountRemovals := [hd initial_accounts]\<rparr>\<rparr>"

text \<open>The second and the third safe are selected, nothing is staged.\<close>

definition fresh_selection :: app_state where
  "fresh_selection =
     initial_state
       \<lparr>safeRemoval := (safeRemoval initial_state)
          \<lparr>selectedSafesForRemoval := [(''SAFE-002'', True), (''SAFE-001'', False), (''SAFE-003'', True)],
           safeRemovalFilter := ''SAFE''\<rparr>\<rparr>"

text \<open>
  The first safe of the list is clicked; then the removal tab is activated again and the
  vault answers the request for the safes with the body \<^verbatim>\<open>{}\<close>.
\<close>

definition selection_after_refresh :: app_state where
  "selection_after_refresh =
     fetchSafes (Inr (JObj [])) (toggleSafeSelection (hd initial_safes) initial_state)"

text \<open>The first safe is selected and already staged.\<close>

definition stale_selection :: app_state where
  "stale_selection =
     initial_state
       \<lparr>safeRemoval := (safeRemoval initial_state)
          \<lparr>selectedSafesForRemoval := [(''SAFE-001'', True)]\<rparr>,
        staged := empty_queues\<lparr>stagedSafeRemovals := [hd initial_safes]\<rparr>\<rparr>"

text \<open>
  Edits in progress on the second safe, member and account, whose modification queues
  hold the first and the second record of each mirror.
\<close>

definition editing_state :: app_state where
  "editing_state =
     initial_state
       \<lparr>safeModification := (safeModification initial_state)
          \<lparr>editingSafeId := JStr ''SAFE-002'',
           editedSafeData := \<lparr>e_managingCPM = JStr ''CPM2'', e_retentionType = JStr ''days'',
                              e_retentionValue = JStr ''45''\<rparr>\<rparr>,
        memberModification := (memberModification initial_state)
          \<lparr>editingMemberId := JStr ''MEM-002'',
           editedMemberData := \<lparr>e_perms = Some TEMPLATE_SM_PROV\<rparr>\<rparr>,
        accountModification := (accountModification initial_state)
          \<lparr>editingAccountId := JStr ''ACC-002'',
           editedAccountData := \<lparr>e_username = JStr ''db_owner'', e_address = JUndefined,
                                 e_platform = JUndefined\<rparr>\<rparr>,
        staged := empty_queues
          \<lparr>stagedSafeModifications := take 2 initial_safes,
           stagedMemberModifications := take 2 initial_members,
           stagedAccountModifications := take 2 initial_accounts\<rparr>\<rparr>"

text \<open>A login form filled in, and the answers of a server to the login request.\<close>

definition login_form :: auth_state where
  "login_form =
     (init_auth empty_storage)
       \<lparr>vaultUrl := ''https://vault.example'', username := ''admin'', password := ''pw''\<rparr>"

definition ok_response :: "js \<Rightarrow> fetch_result" where
  "ok_response b = Resolved \<lparr>ok = True, status = 200, statusText = ''OK'', json = Inr b\<rparr>"

definition server_down :: "nat \<Rightarrow> request \<Rightarrow> fetch_result \<times> nat" where
  "server_down w req =
     (if w = 0 then Rejected ''Failed to fetch''
      else Resolved \<lparr>ok = False, status = 500, statusText = ''Internal Server Error'',
                     json = Inl ''Unexpected end of JSON input''\<rparr>,
      Suc w)"

text \<open>One entry in the first, the fifth and the ninth queue.\<close>

definition three_staged :: app_state where
  "three_staged =
     initial_state
       \<lparr>staged := empty_queues
          \<lparr>stagedSafes := [\<lparr>ns_name = ''Finance-01'', ns_description = [], ns_CPMManaging = [],
                             ns_retentionMode = ''versions'', ns_retentionValue = ''10''\<rparr>],
           stagedMemberRemovals := [hd initial_members],
           stagedAccountModifications := [hd initial_accounts]\<rparr>\<rparr>"

text \<open>
  A session: the login form is filled in and the server answers the login request with a
  token; then the page is reloaded without logout.
\<close>

definition login_session :: "auth_event list" where
  "login_session =
     [SetVaultUrl ''https://vault.example'', SetUsername ''admin'', SetPassword ''pw'',
      Authenticate (ok_response (JObj [(''token'', JStr ''abc123'')]))]"

definition login_then_reload :: "auth_event list" where
  "login_then_reload = login_session @ [Reload]"

text \<open>A session in which the server answers the login request with the body \<^verbatim>\<open>[]\<close>.\<close>

definition array_login_session :: "auth_event list" where
  "array_login_session =
     [SetVaultUrl ''https://vault.example'', SetUsername ''admin'', SetPassword ''pw'',
      Authenticate (ok_response (JArr []))]"

text \<open>A client storage that holds a token.\<close>

definition storage_with_token :: local_storage where
  "storage_with_token =
     \<lparr>cyberark_token = Some ''abc123'', cyberark_url = Some ''https://vault.example''\<rparr>"

section \<open>Role detection compares ordered key/value sequences\<close>

text \<open>
  Two permission objects have the same serialisation exactly when they list the same
  keys in the same order with the same values. A quoted key is cut off at its closing
  quote, the value after the colon is one of two words of which neither starts the
  other, and the character after a property says whether another one follows.
\<close>

lemma key_name_inj: "key_name a = key_name b \<Longrightarrow> a = b"
  by (cases a; cases b; simp)

lemma key_name_no_quote: "CHR 0x22 \<notin> set (key_name k)"
  by (cases k; simp)

lemma split_at_quote:
  "CHR 0x22 \<notin> set a \<Longrightarrow> CHR 0x22 \<notin> set b \<Longrightarrow> a @ CHR 0x22 # r = b @ CHR 0x22 # s
    \<Longrightarrow> a = b \<and> r = s"
proof (induction a arbitrary: b)
  case Nil
  then show ?case by (cases b) auto
next
  case (Cons x a)
  then show ?case by (cases b) auto
qed

lemma json_bool_prefix: "json_bool v @ r = json_bool w @ s \<Longrightarrow> v = w \<and> r = s"
  by (cases v; cases w; simp add: json_bool_def)

lemma json_property_prefix:
  assumes "json_property kv @ r = json_property kv' @ s"
  shows "kv = kv' \<and> r = s"
proof -
  from assms have "key_name (fst kv) @ CHR 0x22 # ('':'' @ json_bool (snd kv) @ r)
      = key_name (fst kv') @ CHR 0x22 # ('':'' @ json_bool (snd kv') @ s)"
    by (simp add: json_property_def)
  then have k: "key_name (fst kv) = key_name (fst kv')"
    and rest: "'':'' @ json_bool (snd kv) @ r = '':'' @ json_bool (snd kv') @ s"
    using split_at_quote [OF key_name_no_quote key_name_no_quote] by blast+
  from rest have "json_bool (snd kv) @ r = json_bool (snd kv') @ s" by simp
  then have "snd kv = snd kv'" and "r = s" using json_bool_prefix by blast+
  with k show ?thesis using key_name_inj by (simp add: prod_eq_iff)
qed

lemma json_members_inj: "json_members p @ ''}'' = json_members q @ ''}'' \<Longrightarrow> p = q"
proof (induction p arbitrary: q rule: json_members.induct)
  case 1
  then show ?case
    by (cases q rule: json_members.cases) (simp_all add: json_property_def)
next
  case (2 kv)
  show ?case
  proof (cases q rule: json_members.cases)
    case 1
    with "2.prems" show ?thesis by (simp add: json_property_def)
  next
    case (2 kv2)
    with "2.prems" have "json_property kv @ ''}'' = json_property kv2 @ ''}''" by simp
    then show ?thesis using 2 json_property_prefix by blast
  next
    case (3 kv2 kv' rest)
    with "2.prems" have "json_property kv @ ''}''
        = json_property kv2 @ ('','' @ json_members (kv' # rest) @ ''}'')" by simp
    then have "''}'' = '','' @ json_members (kv' # rest) @ ''}''"
      using json_property_prefix by blast
    then show ?thesis by simp
  qed
next
  case (3 kv kv' rest)
  show ?case
  proof (cases q rule: json_members.cases)
    case 1
    with "3.prems" show ?thesis by (simp add: json_property_def)
  next
    case (2 kv2)
    with "3.prems" have "json_property kv @ ('','' @ json_members (kv' # rest) @ ''}'')
        = json_property kv2 @ ''}''" by simp
    then have "'','' @ json_members (kv' # rest) @ ''}'' = ''}''"
      using json_property_prefix by blast
    then show ?thesis by simp
  next
    case (3 kv2 kv2' rest2)
    with "3.prems" have "json_property kv @ ('','' @ json_members (kv' # rest) @ ''}'')
        = json_property kv2 @ ('','' @ json_members (kv2' # rest2) @ ''}'')" by simp
    then have a: "kv = kv2"
      and b: "'','' @ json_members (kv' # rest) @ ''}''
              = '','' @ json_members (kv2' # rest2) @ ''}''"
      using json_property_prefix by blast+
    from b have "json_members (kv' # rest) @ ''}'' = json_members (kv2' # rest2) @ ''}''"
      by simp
    then have "kv' # rest = kv2' # rest2" by (rule "3.IH")
    with a 3 show ?thesis by simp
  qed
qed

lemma JSON_stringify_eq_iff: "JSON_stringify p = JSON_stringify q \<longleftrightarrow> p = q"
  using json_members_inj by (auto simp: JSON_stringify_def)

lemma detect_loop_find:
  "detect_loop entries p =
     (case find (\<lambda>(roleName, rolePerms). p = rolePerms) entries of
        Some (roleName, rolePerms) \<Rightarrow> roleName
      | None \<Rightarrow> ''Custom'')"
  by (induction entries p rule: detect_loop.induct) (simp_all add: JSON_stringify_eq_iff)

lemma detect_loop_label: "detect_loop entries p \<in> set (map fst entries @ [''Custom''])"
  by (induction entries p rule: detect_loop.induct) auto

lemma template_names:
  "map fst PERM_TEMPLATES = [''PAM'', ''SM-HOLDER'', ''SM-PROV'', ''SM-APP'', ''NONE'', ''FULL'']"
  by (simp add: PERM_TEMPLATES_def)

lemma FULL_is_PAM: "TEMPLATE_FULL = TEMPLATE_PAM"
  by (simp add: TEMPLATE_FULL_def TEMPLATE_PAM_def)

text \<open>
  C3, as stated, fails: the all-false permission set with its last key inserted first is
  equal by value to the template NONE, so the specification's detection gives NONE, and
  the code gives Custom.
\<close>

theorem detectRole_key_order_counterexample:
  "deep_equal NONE_reordered TEMPLATE_NONE \<and>
   detectRole_spec NONE_reordered = ''NONE'' \<and>
   detectRoleFromPermissions NONE_reordered = ''Custom''"
  by code_simp

text \<open>
  C3, amended: the templates are declared in the order PAM, SM-HOLDER, SM-PROV, SM-APP,
  NONE, FULL; for every permission set, role detection returns the name of the first
  template in that order that lists the same keys in the same order with the same values
  as the set, and Custom when no template does; the result is always one of the six
  names or Custom.
\<close>

theorem detectRole_first_identical_template:
  "map fst PERM_TEMPLATES = [''PAM'', ''SM-HOLDER'', ''SM-PROV'', ''SM-APP'', ''NONE'', ''FULL''] \<and>
   detectRoleFromPermissions p =
     (case find (\<lambda>(roleName, rolePerms). p = rolePerms) PERM_TEMPLATES of
        Some (roleName, rolePerms) \<Rightarrow> roleName
      | None \<Rightarrow> ''Custom'') \<and>
   detectRoleFromPermissions p \<in>
     set [''PAM'', ''SM-HOLDER'', ''SM-PROV'', ''SM-APP'', ''NONE'', ''FULL'', ''Custom'']"
  using detect_loop_label [of PERM_TEMPLATES p]
  by (simp add: detectRoleFromPermissions_def detect_loop_find template_names del: detect_loop.simps)

text \<open>At the template FULL, whose entries are those of PAM, the first match is PAM.\<close>

theorem detectRole_first_identical_template_witness:
  "detectRoleFromPermissions TEMPLATE_FULL = ''PAM''"
  using detectRole_first_identical_template [of TEMPLATE_FULL]
  by (simp add: PERM_TEMPLATES_def FULL_is_PAM)

section \<open>Login and the session flag\<close>

lemma login_token_truthy: "login_token r = Inr token \<Longrightarrow> truthy token"
  by (auto simp: login_token_def js_or_def Let_def split: fetch_result.splits sum.splits if_splits)

lemma login_token_object: "login_token (ok_response (JObj kvs)) = Inr (js_or (get_prop (JObj kvs) ''token'') (JObj kvs))"
  by (simp add: login_token_def ok_response_def nullish_def js_or_def Let_def)

text \<open>
  C9: the code does not do what the claim says. The login form is filled in and the
  server answers the login request with status 200 and the body \<^verbatim>\<open>{}\<close>. The token
  becomes the body itself, which is truthy, so the check for a missing token passes:
  the client is marked as logged in, no error is set, and the storage receives the
  text of the object.
\<close>

theorem authenticate_empty_object_logs_in:
  "(case authenticate (\<lambda>req. ok_response (JObj [])) login_form empty_storage of
      (s, ls, notes, reqs) \<Rightarrow>
        isLoggedIn s \<and> authToken s = JObj [] \<and> authError s = [] \<and>
        cyberark_token ls = Some ''[object Object]'' \<and>
        map snd notes = [''info'', ''success''])"
  by code_simp

lemma authenticate_flag:
  "authenticate fetch s ls = (s', ls', notes, reqs) \<Longrightarrow> isLoggedIn s' \<Longrightarrow>
     isLoggedIn s \<or> token_truthy s'"
  by (auto simp: authenticate_def token_truthy_def Let_def login_token_truthy
           split: if_splits sum.splits)

lemma auth_step_invariant:
  assumes "isLoggedIn (fst st) \<longrightarrow> token_truthy (fst st)"
  shows "isLoggedIn (fst (auth_step debug e st)) \<longrightarrow> token_truthy (fst (auth_step debug e st))"
proof (cases st)
  case (Pair s ls)
  show ?thesis
  proof (cases e)
    case (Authenticate r)
    show ?thesis
    proof (cases "isLoggedIn s")
      case True
      with assms Pair Authenticate show ?thesis by simp
    next
      case False
      obtain s' ls' ns rs where a: "authenticate (\<lambda>req. r) s ls = (s', ls', ns, rs)"
        by (cases "authenticate (\<lambda>req. r) s ls") auto
      with False Pair Authenticate have "fst (auth_step debug e st) = s'" by simp
      with authenticate_flag [OF a] False show ?thesis by auto
    qed
  next
    case (DebugLogin now1 now2)
    with assms Pair show ?thesis
      by (simp add: debug_login_def token_truthy_def)
  next
    case Logout
    with assms Pair show ?thesis by (simp add: logout_def)
  next
    case Reload
    with Pair show ?thesis by (simp add: init_auth_def)
  qed (use assms Pair in \<open>simp_all add: clear_error_def token_truthy_def\<close>)
qed

lemma session_after_snoc:
  "session_after debug ls (events @ [e]) = auth_step debug e (session_after debug ls events)"
  by (simp add: session_after_def)

lemma session_invariant:
  "isLoggedIn (fst (session_after debug ls events)) \<longrightarrow>
   token_truthy (fst (session_after debug ls events))"
proof (induction events rule: rev_induct)
  case Nil
  show ?case by (simp add: session_after_def init_auth_def)
next
  case (snoc e events)
  then show ?case
    unfolding session_after_snoc by (rule auth_step_invariant)
qed

text \<open>As long as no login brings another kind of token, the token of the session is a string.\<close>

lemma authenticate_text:
  assumes "text_token_event (Authenticate r)" and "\<exists>t. authToken s = JStr t"
  shows "\<exists>t. authToken (fst (authenticate (\<lambda>req. r) s ls)) = JStr t"
  using assms
  by (auto simp: authenticate_def Let_def split: sum.splits js.splits)

lemma auth_step_text:
  assumes "text_token_event e" and "\<exists>t. authToken (fst st) = JStr t"
  shows "\<exists>t. authToken (fst (auth_step debug e st)) = JStr t"
proof (cases st)
  case (Pair s ls)
  show ?thesis
  proof (cases e)
    case (Authenticate r)
    with assms Pair authenticate_text [of r s ls] show ?thesis
      by (cases "authenticate (\<lambda>req. r) s ls") auto
  next
    case (DebugLogin now1 now2)
    with assms Pair show ?thesis by (simp add: debug_login_def)
  next
    case Logout
    with assms Pair show ?thesis by (simp add: logout_def)
  next
    case Reload
    with Pair show ?thesis by (simp add: init_auth_def split: option.splits)
  qed (use assms Pair in \<open>simp_all add: clear_error_def\<close>)
qed

lemma session_text:
  "list_all text_token_event events \<Longrightarrow>
     \<exists>t. authToken (fst (session_after debug ls events)) = JStr t"
proof (induction events rule: rev_induct)
  case Nil
  show ?case by (simp add: session_after_def init_auth_def split: option.splits)
next
  case (snoc e events)
  then show ?case
    unfolding session_after_snoc by (simp add: auth_step_text)
qed

lemma session_text_nonempty:
  assumes "list_all text_token_event events"
    and "isLoggedIn (fst (session_after debug ls events))"
  shows "token_nonempty (fst (session_after debug ls events))"
proof -
  from session_text [OF assms(1)] obtain t where
    t: "authToken (fst (session_after debug ls events)) = JStr t" by blast
  from session_invariant assms(2) have "token_truthy (fst (session_after debug ls events))"
    by blast
  with t show ?thesis by (simp add: token_truthy_def token_nonempty_def)
qed

lemma logout_clears:
  "isLoggedIn (fst st) \<Longrightarrow>
     \<not> isLoggedIn (fst (auth_step debug Logout st)) \<and>
     \<not> token_truthy (fst (auth_step debug Logout st)) \<and>
     \<not> token_nonempty (fst (auth_step debug Logout st))"
  by (cases st) (simp add: logout_def token_truthy_def token_nonempty_def)

lemma startup_session:
  "\<not> isLoggedIn (fst (session_after debug ls [])) \<and>
   (token_nonempty (fst (session_after debug ls [])) \<longleftrightarrow>
      cyberark_token ls \<noteq> None \<and> cyberark_token ls \<noteq> Some [])"
  by (auto simp: session_after_def init_auth_def token_nonempty_def split: option.splits)

text \<open>
  C10, as stated, fails at startup: after a successful login and a reload of the page
  without logout, the token restored from the client storage is the non-empty string
  of the login and the session flag is false.
\<close>

theorem session_restored_token_counterexample:
  "\<not> isLoggedIn (fst (session_after False empty_storage login_then_reload)) \<and>
   authToken (fst (session_after False empty_storage login_then_reload)) = JStr ''abc123'' \<and>
   token_nonempty (fst (session_after False empty_storage login_then_reload))"
  by code_simp

text \<open>
  A token that is truthy need not have a text: when the server answers the login request
  with the body \<^verbatim>\<open>[]\<close>, the array becomes the token, the session is logged in, and the
  text of the token, which the client storage receives, is empty.
\<close>

lemma array_reply_empty_token_text:
  "isLoggedIn (fst (session_after False empty_storage array_login_session)) \<and>
   token_truthy (fst (session_after False empty_storage array_login_session)) \<and>
   \<not> token_nonempty (fst (session_after False empty_storage array_login_session)) \<and>
   cyberark_token (snd (session_after False empty_storage array_login_session)) = Some []"
  by code_simp

lemma authenticate_success:
  "vaultUrl s \<noteq> [] \<and> username s \<noteq> [] \<and> password s \<noteq> [] \<and> login_token r = Inr token \<Longrightarrow>
     isLoggedIn (fst (authenticate (\<lambda>req. r) s ls)) \<and>
     authToken (fst (authenticate (\<lambda>req. r) s ls)) = token \<and>
     token_truthy (fst (authenticate (\<lambda>req. r) s ls))"
  using login_token_truthy [of r token]
  by (simp add: authenticate_def Let_def token_truthy_def)

text \<open>
  C10, amended: in every state that a session reaches, in debug mode or not, from any
  client storage, a true session flag implies that the token is truthy, which is the
  check the code itself applies to a token; in a session where every login brought its
  token as a string, a true session flag implies that the token is not empty. The logout
  button leaves the flag false and the token empty; a login whose response yields a
  token sets the flag and stores that token, which is truthy; at startup the flag is
  false, and the token is non-empty exactly when the client storage holds a non-empty
  token.
\<close>

theorem session_flag_implies_token:
  "(isLoggedIn (fst (session_after debug ls events)) \<longrightarrow>
      token_truthy (fst (session_after debug ls events))) \<and>
   (list_all text_token_event events \<and> isLoggedIn (fst (session_after debug ls events)) \<longrightarrow>
      token_nonempty (fst (session_after debug ls events))) \<and>
   (isLoggedIn (fst (session_after debug ls events)) \<longrightarrow>
      \<not> isLoggedIn (fst (auth_step debug Logout (session_after debug ls events))) \<and>
      \<not> token_truthy (fst (auth_step debug Logout (session_after debug ls events))) \<and>
      \<not> token_nonempty (fst (auth_step debug Logout (session_after debug ls events)))) \<and>
   (vaultUrl s \<noteq> [] \<and> username s \<noteq> [] \<and> password s \<noteq> [] \<and> login_token r = Inr token \<longrightarrow>
      isLoggedIn (fst (authenticate (\<lambda>req. r) s ls')) \<and>
      authToken (fst (authenticate (\<lambda>req. r) s ls')) = token \<and>
      token_truthy (fst (authenticate (\<lambda>req. r) s ls'))) \<and>
   \<not> isLoggedIn (fst (session_after debug ls [])) \<and>
   (token_nonempty (fst (session_after debug ls [])) \<longleftrightarrow>
      cyberark_token ls \<noteq> None \<and> cyberark_token ls \<noteq> Some [])"
  using session_invariant [of debug ls events] session_text_nonempty [of events debug ls]
    logout_clears [of "session_after debug ls events" debug]
    startup_session [of debug ls] authenticate_success [of s r token ls']
  by blast

lemma login_form_filled:
  "vaultUrl login_form \<noteq> [] \<and> username login_form \<noteq> [] \<and> password login_form \<noteq> [] \<and>
   login_token (ok_response (JObj [(''token'', JStr ''abc123'')])) = Inr (JStr ''abc123'')"
  by code_simp

lemma login_session_text: "list_all text_token_event login_session"
  by code_simp

text \<open>
  After the login of \<open>login_session\<close>, whose token is a string, the flag is true, and so
  the token is truthy and non-empty and logout clears both; the login form with a
  response that carries a token logs in; a start on a storage that holds a token has a
  non-empty token.
\<close>

theorem session_flag_implies_token_witness:
  "list_all text_token_event login_session \<and>
   isLoggedIn (fst (session_after False storage_with_token login_session)) \<and>
   token_truthy (fst (session_after False storage_with_token login_session)) \<and>
   token_nonempty (fst (session_after False storage_with_token login_session)) \<and>
   \<not> isLoggedIn (fst (auth_step False Logout (session_after False storage_with_token login_session))) \<and>
   \<not> token_nonempty (fst (auth_step False Logout (session_after False storage_with_token login_session))) \<and>
   isLoggedIn (fst (authenticate (\<lambda>req. ok_response (JObj [(''token'', JStr ''abc123'')]))
                      login_form empty_storage)) \<and>
   authToken (fst (authenticate (\<lambda>req. ok_response (JObj [(''token'', JStr ''abc123'')]))
                      login_form empty_storage)) = JStr ''abc123'' \<and>
   \<not> isLoggedIn (fst (session_after False storage_with_token [])) \<and>
   token_nonempty (fst (session_after False storage_with_token []))"
proof -
  have flag: "isLoggedIn (fst (session_after False storage_with_token login_session))"
    by code_simp
  have stored: "cyberark_token storage_with_token \<noteq> None \<and>
      cyberark_token storage_with_token \<noteq> Some []"
    by (simp add: storage_with_token_def)
  from flag stored login_form_filled login_session_text
    session_flag_implies_token [of False storage_with_token login_session login_form
      "ok_response (JObj [(''token'', JStr ''abc123'')])" "JStr ''abc123''" empty_storage]
  show ?thesis by blast
qed

section \<open>Staging creations\<close>

text \<open>
  C4, as stated, fails for members and accounts: with every required field present the
  queue grows by one, but the account form keeps its platform id, safe name and
  management flag, and the member form keeps its target safe, domain and permissions,
  so neither form is back at its default values.
\<close>

theorem create_form_not_reset_counterexample:
  "length (stagedAccounts (staged (fst (handleAddAccountToQueue filled_forms)))) =
     length (stagedAccounts (staged filled_forms)) + 1 \<and>
   accountForm (fst (handleAddAccountToQueue filled_forms)) \<noteq> default_account_form \<and>
   accPlatformId (accountForm (fst (handleAddAccountToQueue filled_forms))) = ''UnixSSH'' \<and>
   length (stagedMembers (staged (fst (handleAddCustomMember filled_forms)))) =
     length (stagedMembers (staged filled_forms)) + 1 \<and>
   memberForm (fst (handleAddCustomMember filled_forms)) \<noteq> default_member_form \<and>
   targetSafe (memberForm (fst (handleAddCustomMember filled_forms))) = ''Finance-01''"
  by code_simp

text \<open>
  A safe name is present when something is left of it after \<^verbatim>\<open>trim\<close>, which removes
  every white space of ECMAScript: a name that is one NO-BREAK SPACE is blank, and the
  handler answers it with the error of a missing name.
\<close>

lemma no_break_space_name_rejected:
  "trim (customSafeName (safeForm blank_safe_name)) = [] \<and>
   handleAddSafeToStage blank_safe_name =
     (blank_safe_name, [(''Please enter a Safe name!'', ''error'')])"
  by code_simp

text \<open>
  C4, amended: staging a creation with every required field present appends one entry to
  the creation queue of that kind and shows no notification. For a safe (name not blank
  after trimming, retention value of the selected mode not empty) the form is back at
  its default values. For a member (target safe and member name not empty) only the member name is
  cleared. For an account (object id, address, username, platform id and safe name not
  empty) the object id, address, username, password, manual management reason and
  remote machines are cleared and the other fields stay.
\<close>

theorem create_staging_appends_one:
  "(trim (customSafeName (safeForm st)) \<noteq> [] \<and>
    (if retentionMode (safeForm st) = ''versions'' then versionRetention (safeForm st)
     else daysRetention (safeForm st)) \<noteq> [] \<longrightarrow>
      (case handleAddSafeToStage st of
         (st', notes) \<Rightarrow>
           length (stagedSafes (staged st')) = length (stagedSafes (staged st)) + 1 \<and>
           safeForm st' = default_safe_form \<and> notes = [])) \<and>
   (targetSafe (memberForm st) \<noteq> [] \<and> memberName (memberForm st) \<noteq> [] \<longrightarrow>
      (case handleAddCustomMember st of
         (st', notes) \<Rightarrow>
           length (stagedMembers (staged st')) = length (stagedMembers (staged st)) + 1 \<and>
           memberForm st' = (memberForm st)\<lparr>memberName := []\<rparr> \<and> notes = [])) \<and>
   (accObject (accountForm st) \<noteq> [] \<and> accAddress (accountForm st) \<noteq> [] \<and>
    accUsername (accountForm st) \<noteq> [] \<and> accPlatformId (accountForm st) \<noteq> [] \<and>
    accSafeName (accountForm st) \<noteq> [] \<longrightarrow>
      (case handleAddAccountToQueue st of
         (st', notes) \<Rightarrow>
           length (stagedAccounts (staged st')) = length (stagedAccounts (staged st)) + 1 \<and>
           accountForm st' =
             (accountForm st)\<lparr>accObject := [], accAddress := [], accUsername := [],
                               accPassword := [], accManualReason := [],
                               accRemoteMachines := []\<rparr> \<and>
           notes = []))"
proof (intro conjI impI)
  assume "trim (customSafeName (safeForm st)) \<noteq> [] \<and>
    (if retentionMode (safeForm st) = ''versions'' then versionRetention (safeForm st)
     else daysRetention (safeForm st)) \<noteq> []"
  then show "case handleAddSafeToStage st of
      (st', notes) \<Rightarrow>
        length (stagedSafes (staged st')) = length (stagedSafes (staged st)) + 1 \<and>
        safeForm st' = default_safe_form \<and> notes = []"
    by (simp add: handleAddSafeToStage_def Let_def default_safe_form_def)
next
  assume "targetSafe (memberForm st) \<noteq> [] \<and> memberName (memberForm st) \<noteq> []"
  then show "case handleAddCustomMember st of
      (st', notes) \<Rightarrow>
        length (stagedMembers (staged st')) = length (stagedMembers (staged st)) + 1 \<and>
        memberForm st' = (memberForm st)\<lparr>memberName := []\<rparr> \<and> notes = []"
    by (simp add: handleAddCustomMember_def Let_def)
next
  assume "accObject (accountForm st) \<noteq> [] \<and> accAddress (accountForm st) \<noteq> [] \<and>
    accUsername (accountForm st) \<noteq> [] \<and> accPlatformId (accountForm st) \<noteq> [] \<and>
    accSafeName (accountForm st) \<noteq> []"
  then show "case handleAddAccountToQueue st of
      (st', notes) \<Rightarrow>
        length (stagedAccounts (staged st')) = length (stagedAccounts (staged st)) + 1 \<and>
        accountForm st' =
          (accountForm st)\<lparr>accObject := [], accAddress := [], accUsername := [],
                            accPassword := [], accManualReason := [],
                            accRemoteMachines := []\<rparr> \<and>
        notes = []"
    by (simp add: handleAddAccountToQueue_def Let_def)
qed

lemma filled_forms_complete:
  "trim (customSafeName (safeForm filled_forms)) \<noteq> [] \<and>
   (if retentionMode (safeForm filled_forms) = ''versions''
    then versionRetention (safeForm filled_forms)
    else daysRetention (safeForm filled_forms)) \<noteq> []"
  "targetSafe (memberForm filled_forms) \<noteq> [] \<and> memberName (memberForm filled_forms) \<noteq> []"
  "accObject (accountForm filled_forms) \<noteq> [] \<and> accAddress (accountForm filled_forms) \<noteq> [] \<and>
   accUsername (accountForm filled_forms) \<noteq> [] \<and> accPlatformId (accountForm filled_forms) \<noteq> [] \<and>
   accSafeName (accountForm filled_forms) \<noteq> []"
  by code_simp+

theorem create_staging_appends_one_witness:
  "(trim (customSafeName (safeForm filled_forms)) \<noteq> [] \<and>
    (if retentionMode (safeForm filled_forms) = ''versions''
     then versionRetention (safeForm filled_forms)
     else daysRetention (safeForm filled_forms)) \<noteq> []) \<and>
   (targetSafe (memberForm filled_forms) \<noteq> [] \<and> memberName (memberForm filled_forms) \<noteq> []) \<and>
   (accObject (accountForm filled_forms) \<noteq> [] \<and> accAddress (accountForm filled_forms) \<noteq> [] \<and>
    accUsername (accountForm filled_forms) \<noteq> [] \<and> accPlatformId (accountForm filled_forms) \<noteq> [] \<and>
    accSafeName (accountForm filled_forms) \<noteq> []) \<and>
   length (stagedSafes (staged (fst (handleAddSafeToStage filled_forms)))) = 1 \<and>
   safeForm (fst (handleAddSafeToStage filled_forms)) = default_safe_form \<and>
   length (stagedMembers (staged (fst (handleAddCustomMember filled_forms)))) = 1 \<and>
   memberName (memberForm (fst (handleAddCustomMember filled_forms))) = [] \<and>
   length (stagedAccounts (staged (fst (handleAddAccountToQueue filled_forms)))) = 1 \<and>
   accObject (accountForm (fst (handleAddAccountToQueue filled_forms))) = []"
proof -
  have empty: "stagedSafes (staged filled_forms) = []" "stagedMembers (staged filled_forms) = []"
    "stagedAccounts (staged filled_forms) = []"
    by (simp_all add: filled_forms_def initial_state_def empty_queues_def)
  from create_staging_appends_one [of filled_forms] filled_forms_complete empty
  show ?thesis by (auto split: prod.splits)
qed

text \<open>
  C5: staging a creation with a required field empty (safe: name blank, or the
  retention value of the selected mode empty; member: target safe or member name;
  account: object id, address, username, platform id or safe name) returns the state
  as it was, queue included, and shows one notification of type error. The handlers
  are functions of the application state alone: they have no access to \<open>fetch\<close>.
\<close>

theorem create_staging_rejects_missing_field:
  "(trim (customSafeName (safeForm st)) = [] \<or>
    (if retentionMode (safeForm st) = ''versions'' then versionRetention (safeForm st)
     else daysRetention (safeForm st)) = [] \<longrightarrow>
      fst (handleAddSafeToStage st) = st \<and>
      map snd (snd (handleAddSafeToStage st)) = [''error'']) \<and>
   (targetSafe (memberForm st) = [] \<or> memberName (memberForm st) = [] \<longrightarrow>
      handleAddCustomMember st =
        (st, [(''Please specify a target Safe and member name!'', ''error'')])) \<and>
   (accObject (accountForm st) = [] \<or> accAddress (accountForm st) = [] \<or>
    accUsername (accountForm st) = [] \<or> accPlatformId (accountForm st) = [] \<or>
    accSafeName (accountForm st) = [] \<longrightarrow>
      handleAddAccountToQueue st = (st, [(''Please fill required fields!'', ''error'')]))"
  by (auto simp: handleAddSafeToStage_def handleAddCustomMember_def handleAddAccountToQueue_def
        Let_def)

lemma incomplete_forms_missing:
  "(if retentionMode (safeForm incomplete_forms) = ''versions''
    then versionRetention (safeForm incomplete_forms)
    else daysRetention (safeForm incomplete_forms)) = []"
  "memberName (memberForm incomplete_forms) = []"
  "accPlatformId (accountForm incomplete_forms) = []"
  by code_simp+

theorem create_staging_rejects_missing_field_witness:
  "(if retentionMode (safeForm incomplete_forms) = ''versions''
    then versionRetention (safeForm incomplete_forms)
    else daysRetention (safeForm incomplete_forms)) = [] \<and>
   memberName (memberForm incomplete_forms) = [] \<and>
   accPlatformId (accountForm incomplete_forms) = [] \<and>
   fst (handleAddSafeToStage incomplete_forms) = incomplete_forms \<and>
   map snd (snd (handleAddSafeToStage incomplete_forms)) = [''error''] \<and>
   handleAddCustomMember incomplete_forms =
     (incomplete_forms, [(''Please specify a target Safe and member name!'', ''error'')]) \<and>
   handleAddAccountToQueue incomplete_forms =
     (incomplete_forms, [(''Please fill required fields!'', ''error'')])"
  using create_staging_rejects_missing_field [of incomplete_forms] incomplete_forms_missing
  by simp

section \<open>Staging removals\<close>

lemma includes_id_Nil: "\<not> includes_id [] v"
  by (simp add: includes_id_def split: js.splits)

lemma selected_safes_ids:
  "selected_safes st \<noteq> [] \<Longrightarrow> selectedIds_of (selectedSafesForRemoval (safeRemoval st)) \<noteq> []"
  by (auto simp: selected_safes_def includes_id_Nil)



lemma safe_staged_list_ex:
  "list_ex (\<lambda>staged. s_id staged = s_id safe) (stagedSafeRemovals (staged st)) = safe_staged st safe"
  unfolding safe_staged_def list_ex_iff set_map by (rule iffI) (metis imageI, metis imageE)

text \<open>The safes that the handler stages are the selected safes that are not staged yet.\<close>

lemma safe_itemsToRemove:
  "filter (\<lambda>safe. includes_id (selectedIds_of (selectedSafesForRemoval (safeRemoval st))) (s_id safe) \<and>
             \<not> list_ex (\<lambda>staged. s_id staged = s_id safe) (stagedSafeRemovals (staged st)))
     (availableSafesForRemoval (safeRemoval st)) =
   filter (\<lambda>safe. \<not> safe_staged st safe) (selected_safes st)"
  by (simp add: selected_safes_def safe_staged_list_ex conj_commute)

lemma handleStageSafeRemovals_cases:
  "handleStageSafeRemovals st =
     (if selectedIds_of (selectedSafesForRemoval (safeRemoval st)) = [] then
        (st, [(''Please select at least one Safe to remove!'', ''error'')])
      else if filter (\<lambda>safe. \<not> safe_staged st safe) (selected_safes st) = [] then
        (st, [(''All selected Safes are already queued!'', ''warning'')])
      else
        (st\<lparr>staged := (staged st)\<lparr>stagedSafeRemovals :=
                stagedSafeRemovals (staged st) @
                filter (\<lambda>safe. \<not> safe_staged st safe) (selected_safes st)\<rparr>,
            safeRemoval := (safeRemoval st)\<lparr>selectedSafesForRemoval := [],
                                             safeRemovalFilter := []\<rparr>\<rparr>,
         []))"
  unfolding handleStageSafeRemovals_def Let_def safe_itemsToRemove by simp

lemma handleStageSafeRemovals_queue:
  "stagedSafeRemovals (staged (fst (handleStageSafeRemovals st))) =
     stagedSafeRemovals (staged st) @ filter (\<lambda>safe. \<not> safe_staged st safe) (selected_safes st)"
proof (cases "selectedIds_of (selectedSafesForRemoval (safeRemoval st)) = []")
  case True
  then have "selected_safes st = []" using selected_safes_ids by blast
  with True show ?thesis by (simp add: handleStageSafeRemovals_cases)
next
  case False
  then show ?thesis by (simp add: handleStageSafeRemovals_cases)
qed

text \<open>
  C7, as stated, fails. The first safe of the list is selected, and then the mirror is
  refreshed from a reply that is not an array: the selection mapping still marks one
  id, which is in no removal queue, and the handler stages nothing; it leaves the queue
  empty and the selection as it was, and warns that every selected safe is queued
  already.
\<close>

theorem safe_removal_stale_selection_counterexample:
  "selectedIds_of (selectedSafesForRemoval (safeRemoval selection_after_refresh)) = [''SAFE-001''] \<and>
   stagedSafeRemovals (staged selection_after_refresh) = [] \<and>
   handleStageSafeRemovals selection_after_refresh =
     (selection_after_refresh, [(''All selected Safes are already queued!'', ''warning'')]) \<and>
   length (stagedSafeRemovals (staged (fst (handleStageSafeRemovals selection_after_refresh)))) = 0"
  by code_simp

text \<open>
  C7, amended: the handler stages records of the removal mirror, so the safes that count
  are the safes of the mirror that the selection marks. When none of them is staged yet,
  the removal queue grows by their number; when there is at least one and all are
  staged already, the state stays as it is and a warning is shown; in every case the
  queue is extended by exactly the selected safes of the mirror that are not staged
  yet, in mirror order; and when that extension is not empty, the selection mapping and
  the free-text filter are cleared and no notification is shown. When the selection marks
  only ids that no safe of the mirror carries, the state stays as it is and the same
  warning is shown.
\<close>

theorem safe_removal_staging:
  "((\<forall>safe \<in> set (selected_safes st). \<not> safe_staged st safe) \<longrightarrow>
      length (stagedSafeRemovals (staged (fst (handleStageSafeRemovals st)))) =
        length (stagedSafeRemovals (staged st)) + length (selected_safes st)) \<and>
   (selected_safes st \<noteq> [] \<and> (\<forall>safe \<in> set (selected_safes st). safe_staged st safe) \<longrightarrow>
      handleStageSafeRemovals st =
        (st, [(''All selected Safes are already queued!'', ''warning'')])) \<and>
   stagedSafeRemovals (staged (fst (handleStageSafeRemovals st))) =
     stagedSafeRemovals (staged st) @
     filter (\<lambda>safe. \<not> safe_staged st safe) (selected_safes st) \<and>
   (filter (\<lambda>safe. \<not> safe_staged st safe) (selected_safes st) \<noteq> [] \<longrightarrow>
      selectedSafesForRemoval (safeRemoval (fst (handleStageSafeRemovals st))) = [] \<and>
      safeRemovalFilter (safeRemoval (fst (handleStageSafeRemovals st))) = [] \<and>
      snd (handleStageSafeRemovals st) = []) \<and>
   (selectedIds_of (selectedSafesForRemoval (safeRemoval st)) \<noteq> [] \<and> selected_safes st = [] \<longrightarrow>
      handleStageSafeRemovals st =
        (st, [(''All selected Safes are already queued!'', ''warning'')]))"
proof -
  have fresh: "length (stagedSafeRemovals (staged (fst (handleStageSafeRemovals st)))) =
      length (stagedSafeRemovals (staged st)) + length (selected_safes st)"
    if "\<forall>safe \<in> set (selected_safes st). \<not> safe_staged st safe"
  proof -
    from that have "filter (\<lambda>safe. \<not> safe_staged st safe) (selected_safes st) = selected_safes st"
      by (simp add: filter_id_conv)
    then show ?thesis by (simp add: handleStageSafeRemovals_queue)
  qed
  have stale: "handleStageSafeRemovals st =
      (st, [(''All selected Safes are already queued!'', ''warning'')])"
    if "selected_safes st \<noteq> [] \<and> (\<forall>safe \<in> set (selected_safes st). safe_staged st safe)"
  proof -
    from that have "filter (\<lambda>safe. \<not> safe_staged st safe) (selected_safes st) = []"
      by (simp add: filter_empty_conv)
    moreover from that have "selectedIds_of (selectedSafesForRemoval (safeRemoval st)) \<noteq> []"
      using selected_safes_ids by blast
    ultimately show ?thesis by (simp add: handleStageSafeRemovals_cases)
  qed
  have cleared: "selectedSafesForRemoval (safeRemoval (fst (handleStageSafeRemovals st))) = [] \<and>
      safeRemovalFilter (safeRemoval (fst (handleStageSafeRemovals st))) = [] \<and>
      snd (handleStageSafeRemovals st) = []"
    if some: "filter (\<lambda>safe. \<not> safe_staged st safe) (selected_safes st) \<noteq> []"
  proof -
    from some have "selected_safes st \<noteq> []" by auto
    then have "selectedIds_of (selectedSafesForRemoval (safeRemoval st)) \<noteq> []"
      by (rule selected_safes_ids)
    with some show ?thesis by (simp add: handleStageSafeRemovals_cases)
  qed
  have marks: "handleStageSafeRemovals st =
      (st, [(''All selected Safes are already queued!'', ''warning'')])"
    if "selectedIds_of (selectedSafesForRemoval (safeRemoval st)) \<noteq> [] \<and> selected_safes st = []"
    using that by (simp add: handleStageSafeRemovals_cases)
  from fresh stale cleared marks handleStageSafeRemovals_queue [of st] show ?thesis by blast
qed

lemma fresh_selection_facts:
  "selected_safes fresh_selection = [initial_safes ! 1, initial_safes ! 2]"
  "\<forall>safe \<in> set (selected_safes fresh_selection). \<not> safe_staged fresh_selection safe"
  "stagedSafeRemovals (staged fresh_selection) = []"
  by code_simp+

lemma stale_selection_facts:
  "selected_safes stale_selection \<noteq> []"
  "\<forall>safe \<in> set (selected_safes stale_selection). safe_staged stale_selection safe"
  by code_simp+

lemma mixed_selection_facts:
  "filter (\<lambda>safe. \<not> safe_staged mixed_selection safe) (selected_safes mixed_selection) =
     [initial_safes ! 1]"
  "filter (safe_staged mixed_selection) (selected_safes mixed_selection) = [initial_safes ! 0]"
  "stagedSafeRemovals (staged mixed_selection) = [initial_safes ! 0]"
  by code_simp+

text \<open>
  Two fresh safes selected: the queue has two entries afterwards. One staged safe
  selected: the warning. One staged and one fresh safe selected: the fresh one is
  appended, and the selection and the filter are cleared. A mark left over from a mirror
  that has been refreshed since: the warning.
\<close>

theorem safe_removal_staging_witness:
  "selected_safes fresh_selection = [initial_safes ! 1, initial_safes ! 2] \<and>
   filter (safe_staged fresh_selection) (selected_safes fresh_selection) = [] \<and>
   length (stagedSafeRemovals (staged (fst (handleStageSafeRemovals fresh_selection)))) = 2 \<and>
   selected_safes stale_selection \<noteq> [] \<and>
   filter (\<lambda>safe. \<not> safe_staged stale_selection safe) (selected_safes stale_selection) = [] \<and>
   handleStageSafeRemovals stale_selection =
     (stale_selection, [(''All selected Safes are already queued!'', ''warning'')]) \<and>
   filter (\<lambda>safe. \<not> safe_staged mixed_selection safe) (selected_safes mixed_selection) \<noteq> [] \<and>
   stagedSafeRemovals (staged (fst (handleStageSafeRemovals mixed_selection))) =
     [initial_safes ! 0, initial_safes ! 1] \<and>
   selectedSafesForRemoval (safeRemoval (fst (handleStageSafeRemovals mixed_selection))) = [] \<and>
   safeRemovalFilter (safeRemoval (fst (handleStageSafeRemovals mixed_selection))) = [] \<and>
   selectedIds_of (selectedSafesForRemoval (safeRemoval selection_after_refresh)) \<noteq> [] \<and>
   selected_safes selection_after_refresh = [] \<and>
   handleStageSafeRemovals selection_after_refresh =
     (selection_after_refresh, [(''All selected Safes are already queued!'', ''warning'')])"
proof -
  have gone: "selectedIds_of (selectedSafesForRemoval (safeRemoval selection_after_refresh)) \<noteq> []"
    "selected_safes selection_after_refresh = []"
    by code_simp+
  from safe_removal_staging [of selection_after_refresh] gone
  have left_over: "handleStageSafeRemovals selection_after_refresh =
      (selection_after_refresh, [(''All selected Safes are already queued!'', ''warning'')])"
    by blast
  have none: "filter (safe_staged fresh_selection) (selected_safes fresh_selection) = []"
    using fresh_selection_facts(2) by (simp add: filter_empty_conv)
  have all: "filter (\<lambda>safe. \<not> safe_staged stale_selection safe)
      (selected_safes stale_selection) = []"
    using stale_selection_facts(2) by (simp add: filter_empty_conv)
  from safe_removal_staging [of fresh_selection] safe_removal_staging [of stale_selection]
    safe_removal_staging [of mixed_selection]
    fresh_selection_facts stale_selection_facts mixed_selection_facts none all
    gone left_over
  show ?thesis by simp
qed











section \<open>Staging modifications\<close>

lemma find_by_id:
  "k \<in> set (map ident xs) \<Longrightarrow> \<exists>b. find (\<lambda>x. ident x = k) xs = Some b \<and> ident b = k"
  by (induction xs) auto

text \<open>On a record that is found, the handlers build the merged record of the specification.\<close>

lemma editedSafe_of_merged: "editedSafe_of (Some b) ed = Some (merged_safe b ed)"
  by (simp add: editedSafe_of_def merged_safe_def spread_safe_def Let_def)

lemma editedMember_of_merged: "editedMember_of (Some b) ed = Some (merged_member b ed)"
  by (simp add: editedMember_of_def merged_member_def spread_member_def Let_def
           split: option.splits)

lemma editedAccount_of_merged: "editedAccount_of (Some b) ed = merged_account b ed"
  by (simp add: editedAccount_of_def merged_account_def spread_account_def Let_def)

lemma merged_ids:
  "s_id (merged_safe sb sed) = s_id sb"
  "m_id (merged_member mb med) = m_id mb"
  "a_id (merged_account ab aed) = a_id ab"
  by (simp_all add: merged_safe_def merged_member_def merged_account_def Let_def)

lemma handleSaveModifiedSafe_queue:
  assumes "editedSafe_of (find (\<lambda>s. s_id s = safeId)
             (availableSafesForModification (safeModification st)))
             (editedSafeData (safeModification st)) = Some e"
  shows "\<exists>st' notes. handleSaveModifiedSafe safeId st = Some (st', notes) \<and>
           stagedSafeModifications (staged st') =
             (if safeId \<in> set (map s_id (stagedSafeModifications (staged st)))
              then map (\<lambda>s. if s_id s = safeId then e else s) (stagedSafeModifications (staged st))
              else stagedSafeModifications (staged st) @ [e])"
  using assms by (simp add: handleSaveModifiedSafe_def Let_def)

lemma handleSaveModifiedMember_queue:
  assumes "editedMember_of (find (\<lambda>x. m_id x = memberId)
             (availableMembersForModification (memberModification st)))
             (editedMemberData (memberModification st)) = Some e"
  shows "\<exists>st' notes. handleSaveModifiedMember memberId st = Some (st', notes) \<and>
           stagedMemberModifications (staged st') =
             (if memberId \<in> set (map m_id (stagedMemberModifications (staged st)))
              then map (\<lambda>x. if m_id x = memberId then e else x)
                     (stagedMemberModifications (staged st))
              else stagedMemberModifications (staged st) @ [e])"
  using assms by (simp add: handleSaveModifiedMember_def Let_def)

lemma handleSaveModifiedAccount_queue:
  assumes "editedAccount_of (find (\<lambda>a. a_id a = accountId)
             (availableAccountsForModification (accountModification st)))
             (editedAccountData (accountModification st)) = e"
  shows "\<exists>st' notes. handleSaveModifiedAccount accountId st = Some (st', notes) \<and>
           stagedAccountModifications (staged st') =
             (if accountId \<in> set (map a_id (stagedAccountModifications (staged st)))
              then map (\<lambda>a. if a_id a = accountId then e else a)
                     (stagedAccountModifications (staged st))
              else stagedAccountModifications (staged st) @ [e])"
  using assms by (simp add: handleSaveModifiedAccount_def Let_def)

lemma replaced_in_place:
  "q' = map (\<lambda>x. if ident x = k then e else x) q \<Longrightarrow>
     length q' = length q \<and> (\<forall>i < length q. q' ! i = (if ident (q ! i) = k then e else q ! i))"
  by simp

lemma upsert_shape:
  assumes "q' = (if k \<in> set (map ident q) then map (\<lambda>x. if ident x = k then e else x) q else q @ [e])"
  shows "if k \<in> set (map ident q)
         then length q' = length q \<and>
              (\<forall>i < length q. q' ! i = (if ident (q ! i) = k then e else q ! i))
         else q' = q @ [e] \<and> length q' = length q + 1"
proof (cases "k \<in> set (map ident q)")
  case True
  with assms have "q' = map (\<lambda>x. if ident x = k then e else x) q" by simp
  from replaced_in_place [OF this] True show ?thesis by simp
next
  case False
  with assms show ?thesis by simp
qed

lemma save_safe_upserts:
  assumes "safeId \<in> set (map s_id (availableSafesForModification (safeModification st)))"
  shows "\<exists>st' notes b.
            find (\<lambda>s. s_id s = safeId) (availableSafesForModification (safeModification st)) = Some b \<and>
            editedSafe_of (Some b) (editedSafeData (safeModification st)) = Some (merged_safe b (editedSafeData (safeModification st))) \<and>
            s_id (merged_safe b (editedSafeData (safeModification st))) = safeId \<and>
            handleSaveModifiedSafe safeId st = Some (st', notes) \<and>
            (if safeId \<in> set (map s_id (stagedSafeModifications (staged st)))
             then length (stagedSafeModifications (staged st')) = length (stagedSafeModifications (staged st)) \<and>
                  (\<forall>i < length (stagedSafeModifications (staged st)).
                     stagedSafeModifications (staged st') ! i =
                       (if s_id (stagedSafeModifications (staged st) ! i) = safeId
                        then merged_safe b (editedSafeData (safeModification st))
                        else stagedSafeModifications (staged st) ! i))
             else stagedSafeModifications (staged st') = stagedSafeModifications (staged st) @ [merged_safe b (editedSafeData (safeModification st))] \<and>
                  length (stagedSafeModifications (staged st')) = length (stagedSafeModifications (staged st)) + 1)"
proof -
  from find_by_id [OF assms] obtain b where b: "find (\<lambda>s. s_id s = safeId)
      (availableSafesForModification (safeModification st)) = Some b" "s_id b = safeId"
    by (elim exE conjE)
  have ed: "editedSafe_of (Some b) (editedSafeData (safeModification st)) = Some (merged_safe b (editedSafeData (safeModification st)))"
    by (rule editedSafe_of_merged)
  have id: "s_id (merged_safe b (editedSafeData (safeModification st))) = safeId"
    unfolding merged_ids by (rule b(2))
  from ed have "editedSafe_of (find (\<lambda>s. s_id s = safeId)
      (availableSafesForModification (safeModification st)))
      (editedSafeData (safeModification st)) = Some (merged_safe b (editedSafeData (safeModification st)))" unfolding b(1) .
  from handleSaveModifiedSafe_queue [OF this] obtain st' ns where
    h: "handleSaveModifiedSafe safeId st = Some (st', ns)"
    and q: "stagedSafeModifications (staged st') =
      (if safeId \<in> set (map s_id (stagedSafeModifications (staged st)))
       then map (\<lambda>s. if s_id s = safeId then merged_safe b (editedSafeData (safeModification st)) else s)
              (stagedSafeModifications (staged st))
       else stagedSafeModifications (staged st) @ [merged_safe b (editedSafeData (safeModification st))])"
    by (elim exE conjE)
  from b(1) ed id h upsert_shape [OF q] show ?thesis by (intro exI conjI)
qed

lemma save_member_upserts:
  assumes "memberId \<in> set (map m_id (availableMembersForModification (memberModification st)))"
  shows "\<exists>st' notes b.
            find (\<lambda>x. m_id x = memberId) (availableMembersForModification (memberModification st)) = Some b \<and>
            editedMember_of (Some b) (editedMemberData (memberModification st)) = Some (merged_member b (editedMemberData (memberModification st))) \<and>
            m_id (merged_member b (editedMemberData (memberModification st))) = memberId \<and>
            handleSaveModifiedMember memberId st = Some (st', notes) \<and>
            (if memberId \<in> set (map m_id (stagedMemberModifications (staged st)))
             then length (stagedMemberModifications (staged st')) = length (stagedMemberModifications (staged st)) \<and>
                  (\<forall>i < length (stagedMemberModifications (staged st)).
                     stagedMemberModifications (staged st') ! i =
                       (if m_id (stagedMemberModifications (staged st) ! i) = memberId
                        then merged_member b (editedMemberData (memberModification st))
                        else stagedMemberModifications (staged st) ! i))
             else stagedMemberModifications (staged st') = stagedMemberModifications (staged st) @ [merged_member b (editedMemberData (memberModification st))] \<and>
                  length (stagedMemberModifications (staged st')) = length (stagedMemberModifications (staged st)) + 1)"
proof -
  from find_by_id [OF assms] obtain b where b: "find (\<lambda>x. m_id x = memberId)
      (availableMembersForModification (memberModification st)) = Some b" "m_id b = memberId"
    by (elim exE conjE)
  have ed: "editedMember_of (Some b) (editedMemberData (memberModification st)) = Some (merged_member b (editedMemberData (memberModification st)))"
    by (rule editedMember_of_merged)
  have id: "m_id (merged_member b (editedMemberData (memberModification st))) = memberId"
    unfolding merged_ids by (rule b(2))
  from ed have "editedMember_of (find (\<lambda>x. m_id x = memberId)
      (availableMembersForModification (memberModification st)))
      (editedMemberData (memberModification st)) = Some (merged_member b (editedMemberData (memberModification st)))" unfolding b(1) .
  from handleSaveModifiedMember_queue [OF this] obtain st' ns where
    h: "handleSaveModifiedMember memberId st = Some (st', ns)"
    and q: "stagedMemberModifications (staged st') =
      (if memberId \<in> set (map m_id (stagedMemberModifications (staged st)))
       then map (\<lambda>x. if m_id x = memberId then merged_member b (editedMemberData (memberModification st)) else x)
              (stagedMemberModifications (staged st))
       else stagedMemberModifications (staged st) @ [merged_member b (editedMemberData (memberModification st))])"
    by (elim exE conjE)
  from b(1) ed id h upsert_shape [OF q] show ?thesis by (intro exI conjI)
qed

lemma save_account_upserts:
  assumes "accountId \<in> set (map a_id (availableAccountsForModification (accountModification st)))"
  shows "\<exists>st' notes b.
            find (\<lambda>a. a_id a = accountId) (availableAccountsForModification (accountModification st)) = Some b \<and>
            editedAccount_of (Some b) (editedAccountData (accountModification st)) = merged_account b (editedAccountData (accountModification st)) \<and>
            a_id (merged_account b (editedAccountData (accountModification st))) = accountId \<and>
            handleSaveModifiedAccount accountId st = Some (st', notes) \<and>
            (if accountId \<in> set (map a_id (stagedAccountModifications (staged st)))
             then length (stagedAccountModifications (staged st')) = length (stagedAccountModifications (staged st)) \<and>
                  (\<forall>i < length (stagedAccountModifications (staged st)).
                     stagedAccountModifications (staged st') ! i =
                       (if a_id (stagedAccountModifications (staged st) ! i) = accountId
                        then merged_account b (editedAccountData (accountModification st))
                        else stagedAccountModifications (staged st) ! i))
             else stagedAccountModifications (staged st') = stagedAccountModifications (staged st) @ [merged_account b (editedAccountData (accountModification st))] \<and>
                  length (stagedAccountModifications (staged st')) = length (stagedAccountModifications (staged st)) + 1)"
proof -
  from find_by_id [OF assms] obtain b where b: "find (\<lambda>a. a_id a = accountId)
      (availableAccountsForModification (accountModification st)) = Some b" "a_id b = accountId"
    by (elim exE conjE)
  have ed: "editedAccount_of (Some b) (editedAccountData (accountModification st)) = merged_account b (editedAccountData (accountModification st))"
    by (rule editedAccount_of_merged)
  have id: "a_id (merged_account b (editedAccountData (accountModification st))) = accountId"
    unfolding merged_ids by (rule b(2))
  from ed have "editedAccount_of (find (\<lambda>a. a_id a = accountId)
      (availableAccountsForModification (accountModification st)))
      (editedAccountData (accountModification st)) = merged_account b (editedAccountData (accountModification st))" unfolding b(1) .
  from handleSaveModifiedAccount_queue [OF this] obtain st' ns where
    h: "handleSaveModifiedAccount accountId st = Some (st', ns)"
    and q: "stagedAccountModifications (staged st') =
      (if accountId \<in> set (map a_id (stagedAccountModifications (staged st)))
       then map (\<lambda>a. if a_id a = accountId then merged_account b (editedAccountData (accountModification st)) else a)
              (stagedAccountModifications (staged st))
       else stagedAccountModifications (staged st) @ [merged_account b (editedAccountData (accountModification st))])"
    by (elim exE conjE)
  from b(1) ed id h upsert_shape [OF q] show ?thesis by (intro exI conjI)
qed

text \<open>
  C6: saving an edit for a record of the modification mirror, in each of the three
  kinds. The handler finds the record, builds the entry that is this record merged with
  the edits (its id is the id that was saved) and returns a new state. When that id is
  already in the modification queue, the new queue has the same length and, position
  by position, the merged entry where the old entry had that id and the old entry
  elsewhere. When the id is not in the queue, the new queue is the old one with the
  merged entry appended, one longer.
\<close>

theorem save_modification_upserts:
  "(safeId \<in> set (map s_id (availableSafesForModification (safeModification st))) \<longrightarrow>
      (\<exists>st' notes b.
          find (\<lambda>s. s_id s = safeId) (availableSafesForModification (safeModification st)) = Some b \<and>
          editedSafe_of (Some b) (editedSafeData (safeModification st)) = Some (merged_safe b (editedSafeData (safeModification st))) \<and>
          s_id (merged_safe b (editedSafeData (safeModification st))) = safeId \<and>
          handleSaveModifiedSafe safeId st = Some (st', notes) \<and>
          (if safeId \<in> set (map s_id (stagedSafeModifications (staged st)))
           then length (stagedSafeModifications (staged st')) = length (stagedSafeModifications (staged st)) \<and>
                (\<forall>i < length (stagedSafeModifications (staged st)).
                   stagedSafeModifications (staged st') ! i =
                     (if s_id (stagedSafeModifications (staged st) ! i) = safeId
                      then merged_safe b (editedSafeData (safeModification st))
                      else stagedSafeModifications (staged st) ! i))
           else stagedSafeModifications (staged st') = stagedSafeModifications (staged st) @ [merged_safe b (editedSafeData (safeModification st))] \<and>
                length (stagedSafeModifications (staged st')) = length (stagedSafeModifications (staged st)) + 1))) \<and>
   (memberId \<in> set (map m_id (availableMembersForModification (memberModification st))) \<longrightarrow>
      (\<exists>st' notes b.
          find (\<lambda>x. m_id x = memberId) (availableMembersForModification (memberModification st)) = Some b \<and>
          editedMember_of (Some b) (editedMemberData (memberModification st)) = Some (merged_member b (editedMemberData (memberModification st))) \<and>
          m_id (merged_member b (editedMemberData (memberModification st))) = memberId \<and>
          handleSaveModifiedMember memberId st = Some (st', notes) \<and>
          (if memberId \<in> set (map m_id (stagedMemberModifications (staged st)))
           then length (stagedMemberModifications (staged st')) = length (stagedMemberModifications (staged st)) \<and>
                (\<forall>i < length (stagedMemberModifications (staged st)).
                   stagedMemberModifications (staged st') ! i =
                     (if m_id (stagedMemberModifications (staged st) ! i) = memberId
                      then merged_member b (editedMemberData (memberModification st))
                      else stagedMemberModifications (staged st) ! i))
           else stagedMemberModifications (staged st') = stagedMemberModifications (staged st) @ [merged_member b (editedMemberData (memberModification st))] \<and>
                length (stagedMemberModifications (staged st')) = length (stagedMemberModifications (staged st)) + 1))) \<and>
   (accountId \<in> set (map a_id (availableAccountsForModification (accountModification st))) \<longrightarrow>
      (\<exists>st' notes b.
          find (\<lambda>a. a_id a = accountId) (availableAccountsForModification (accountModification st)) = Some b \<and>
          editedAccount_of (Some b) (editedAccountData (accountModification st)) = merged_account b (editedAccountData (accountModification st)) \<and>
          a_id (merged_account b (editedAccountData (accountModification st))) = accountId \<and>
          handleSaveModifiedAccount accountId st = Some (st', notes) \<and>
          (if accountId \<in> set (map a_id (stagedAccountModifications (staged st)))
           then length (stagedAccountModifications (staged st')) = length (stagedAccountModifications (staged st)) \<and>
                (\<forall>i < length (stagedAccountModifications (staged st)).
                   stagedAccountModifications (staged st') ! i =
                     (if a_id (stagedAccountModifications (staged st) ! i) = accountId
                      then merged_account b (editedAccountData (accountModification st))
                      else stagedAccountModifications (staged st) ! i))
           else stagedAccountModifications (staged st') = stagedAccountModifications (staged st) @ [merged_account b (editedAccountData (accountModification st))] \<and>
                length (stagedAccountModifications (staged st')) = length (stagedAccountModifications (staged st)) + 1)))"
  by (intro conjI impI)
    (erule save_safe_upserts, erule save_member_upserts, erule save_account_upserts)

lemma replaced_second_of_two:
  assumes "if k \<in> set (map ident q)
           then length q' = length q \<and>
                (\<forall>i < length q. q' ! i = (if ident (q ! i) = k then e else q ! i))
           else q' = q @ [e] \<and> length q' = length q + 1"
    and "k \<in> set (map ident q)" and "q = [x0, x1]" and "ident x0 \<noteq> k" and "ident x1 = k"
  shows "q' = [x0, e]"
proof -
  from assms(1,2) have len: "length q' = length q"
    and nth: "\<forall>i < length q. q' ! i = (if ident (q ! i) = k then e else q ! i)"
    by simp_all
  from nth assms(3,4) have "q' ! 0 = x0" by simp
  moreover from nth assms(3,5) have "q' ! 1 = e" by simp
  moreover from len assms(3) have "length q' = 2" by simp
  ultimately show ?thesis
    by (intro nth_equalityI) (auto simp: less_Suc_eq numeral_2_eq_2)
qed

lemma appended_when_new:
  assumes "if k \<in> set (map ident q)
           then length q' = length q \<and>
                (\<forall>i < length q. q' ! i = (if ident (q ! i) = k then e else q ! i))
           else q' = q @ [e] \<and> length q' = length q + 1"
    and "k \<notin> set (map ident q)"
  shows "q' = q @ [e]"
  using assms by simp

lemma editing_safe_2:
  "JStr ''SAFE-002'' \<in> set (map s_id (availableSafesForModification (safeModification editing_state)))"
  "find (\<lambda>s. s_id s = JStr ''SAFE-002'') (availableSafesForModification (safeModification editing_state)) =
     Some (initial_safes ! 1)"
  "merged_safe (initial_safes ! 1) (editedSafeData (safeModification editing_state)) =
     \<lparr>s_id = JStr ''SAFE-002'', s_name = JStr ''Test-Environment'', s_managingCPM = JStr ''CPM2'',
        s_numberOfVersionsRetention = JUndefined, s_numberOfDaysRetention = JStr ''45''\<rparr>"
  by code_simp+

lemma editing_safe_3:
  "JStr ''SAFE-003'' \<in> set (map s_id (availableSafesForModification (safeModification editing_state)))"
  "find (\<lambda>s. s_id s = JStr ''SAFE-003'') (availableSafesForModification (safeModification editing_state)) =
     Some (initial_safes ! 2)"
  "merged_safe (initial_safes ! 2) (editedSafeData (safeModification editing_state)) =
     \<lparr>s_id = JStr ''SAFE-003'', s_name = JStr ''Archive-2022'', s_managingCPM = JStr ''CPM2'',
        s_numberOfVersionsRetention = JUndefined, s_numberOfDaysRetention = JStr ''45''\<rparr>"
  by code_simp+

lemma editing_safe_queue:
  "stagedSafeModifications (staged editing_state) = [initial_safes ! 0, initial_safes ! 1]"
  "JStr ''SAFE-002'' \<in> set (map s_id (stagedSafeModifications (staged editing_state)))"
  "JStr ''SAFE-003'' \<notin> set (map s_id (stagedSafeModifications (staged editing_state)))"
  "s_id (initial_safes ! 0) \<noteq> JStr ''SAFE-002''"
  "s_id (initial_safes ! 1) = JStr ''SAFE-002''"
  by code_simp+

lemma editing_member_2:
  "JStr ''MEM-002'' \<in> set (map m_id (availableMembersForModification (memberModification editing_state)))"
  "find (\<lambda>x. m_id x = JStr ''MEM-002'') (availableMembersForModification (memberModification editing_state)) =
     Some (initial_members ! 1)"
  "merged_member (initial_members ! 1) (editedMemberData (memberModification editing_state)) =
     (initial_members ! 1)\<lparr>m_role := JStr ''SM-PROV'', m_perms := Some TEMPLATE_SM_PROV\<rparr>"
  by code_simp+

lemma editing_member_3:
  "JStr ''MEM-003'' \<in> set (map m_id (availableMembersForModification (memberModification editing_state)))"
  "find (\<lambda>x. m_id x = JStr ''MEM-003'') (availableMembersForModification (memberModification editing_state)) =
     Some (initial_members ! 2)"
  "merged_member (initial_members ! 2) (editedMemberData (memberModification editing_state)) =
     (initial_members ! 2)\<lparr>m_role := JStr ''SM-PROV'', m_perms := Some TEMPLATE_SM_PROV\<rparr>"
  by code_simp+

lemma editing_member_queue:
  "stagedMemberModifications (staged editing_state) = [initial_members ! 0, initial_members ! 1]"
  "JStr ''MEM-002'' \<in> set (map m_id (stagedMemberModifications (staged editing_state)))"
  "JStr ''MEM-003'' \<notin> set (map m_id (stagedMemberModifications (staged editing_state)))"
  "m_id (initial_members ! 0) \<noteq> JStr ''MEM-002''"
  "m_id (initial_members ! 1) = JStr ''MEM-002''"
  by code_simp+

lemma editing_account_2:
  "JStr ''ACC-002'' \<in> set (map a_id (availableAccountsForModification (accountModification editing_state)))"
  "find (\<lambda>a. a_id a = JStr ''ACC-002'') (availableAccountsForModification (accountModification editing_state)) =
     Some (initial_accounts ! 1)"
  "merged_account (initial_accounts ! 1) (editedAccountData (accountModification editing_state)) =
     (initial_accounts ! 1)\<lparr>a_username := JStr ''db_owner''\<rparr>"
  by code_simp+

lemma editing_account_3:
  "JStr ''ACC-003'' \<in> set (map a_id (availableAccountsForModification (accountModification editing_state)))"
  "find (\<lambda>a. a_id a = JStr ''ACC-003'') (availableAccountsForModification (accountModification editing_state)) =
     Some (initial_accounts ! 2)"
  "merged_account (initial_accounts ! 2) (editedAccountData (accountModification editing_state)) =
     (initial_accounts ! 2)\<lparr>a_username := JStr ''db_owner''\<rparr>"
  by code_simp+

lemma editing_account_queue:
  "stagedAccountModifications (staged editing_state) = [initial_accounts ! 0, initial_accounts ! 1]"
  "JStr ''ACC-002'' \<in> set (map a_id (stagedAccountModifications (staged editing_state)))"
  "JStr ''ACC-003'' \<notin> set (map a_id (stagedAccountModifications (staged editing_state)))"
  "a_id (initial_accounts ! 0) \<noteq> JStr ''ACC-002''"
  "a_id (initial_accounts ! 1) = JStr ''ACC-002''"
  by code_simp+

text \<open>
  The modification queues hold the first and the second record of each mirror. Saving
  the edits of the second record puts the merged record in the second place and leaves
  the first entry and the length; saving the edits for the third record, which is not
  queued, appends the merged record.
\<close>

theorem save_modification_upserts_witness:
  "JStr ''SAFE-002'' \<in> set (map s_id (availableSafesForModification (safeModification editing_state))) \<and>
   JStr ''SAFE-003'' \<in> set (map s_id (availableSafesForModification (safeModification editing_state))) \<and>
   JStr ''MEM-002'' \<in> set (map m_id (availableMembersForModification (memberModification editing_state))) \<and>
   JStr ''MEM-003'' \<in> set (map m_id (availableMembersForModification (memberModification editing_state))) \<and>
   JStr ''ACC-002'' \<in> set (map a_id (availableAccountsForModification (accountModification editing_state))) \<and>
   JStr ''ACC-003'' \<in> set (map a_id (availableAccountsForModification (accountModification editing_state))) \<and>
   (\<exists>st' notes. handleSaveModifiedSafe (JStr ''SAFE-002'') editing_state = Some (st', notes) \<and>
      stagedSafeModifications (staged st') =
        [initial_safes ! 0,
         \<lparr>s_id = JStr ''SAFE-002'', s_name = JStr ''Test-Environment'', s_managingCPM = JStr ''CPM2'',
        s_numberOfVersionsRetention = JUndefined, s_numberOfDaysRetention = JStr ''45''\<rparr>]) \<and>
   (\<exists>st' notes. handleSaveModifiedMember (JStr ''MEM-002'') editing_state = Some (st', notes) \<and>
      stagedMemberModifications (staged st') =
        [initial_members ! 0,
         (initial_members ! 1)\<lparr>m_role := JStr ''SM-PROV'', m_perms := Some TEMPLATE_SM_PROV\<rparr>]) \<and>
   (\<exists>st' notes. handleSaveModifiedAccount (JStr ''ACC-002'') editing_state = Some (st', notes) \<and>
      stagedAccountModifications (staged st') =
        [initial_accounts ! 0,
         (initial_accounts ! 1)\<lparr>a_username := JStr ''db_owner''\<rparr>]) \<and>
   (\<exists>st' notes. handleSaveModifiedSafe (JStr ''SAFE-003'') editing_state = Some (st', notes) \<and>
      stagedSafeModifications (staged st') =
        [initial_safes ! 0, initial_safes ! 1,
         \<lparr>s_id = JStr ''SAFE-003'', s_name = JStr ''Archive-2022'', s_managingCPM = JStr ''CPM2'',
        s_numberOfVersionsRetention = JUndefined, s_numberOfDaysRetention = JStr ''45''\<rparr>]) \<and>
   (\<exists>st' notes. handleSaveModifiedMember (JStr ''MEM-003'') editing_state = Some (st', notes) \<and>
      stagedMemberModifications (staged st') =
        [initial_members ! 0, initial_members ! 1,
         (initial_members ! 2)\<lparr>m_role := JStr ''SM-PROV'', m_perms := Some TEMPLATE_SM_PROV\<rparr>]) \<and>
   (\<exists>st' notes. handleSaveModifiedAccount (JStr ''ACC-003'') editing_state = Some (st', notes) \<and>
      stagedAccountModifications (staged st') =
        [initial_accounts ! 0, initial_accounts ! 1,
         (initial_accounts ! 2)\<lparr>a_username := JStr ''db_owner''\<rparr>])"
proof -
  note replace = save_modification_upserts
      [of "JStr ''SAFE-002''" editing_state "JStr ''MEM-002''" "JStr ''ACC-002''"]
  note append = save_modification_upserts
      [of "JStr ''SAFE-003''" editing_state "JStr ''MEM-003''" "JStr ''ACC-003''"]
  from replace [THEN conjunct1, THEN mp, OF editing_safe_2(1)] obtain st' ns b where
    b: "find (\<lambda>s. s_id s = JStr ''SAFE-002'') (availableSafesForModification (safeModification editing_state)) = Some b"
    and h: "handleSaveModifiedSafe (JStr ''SAFE-002'') editing_state = Some (st', ns)"
    and up: "if JStr ''SAFE-002'' \<in> set (map s_id (stagedSafeModifications (staged editing_state)))
      then length (stagedSafeModifications (staged st')) = length (stagedSafeModifications (staged editing_state)) \<and>
           (\<forall>i < length (stagedSafeModifications (staged editing_state)).
              stagedSafeModifications (staged st') ! i =
                (if s_id (stagedSafeModifications (staged editing_state) ! i) = JStr ''SAFE-002''
                 then merged_safe b (editedSafeData (safeModification editing_state))
                 else stagedSafeModifications (staged editing_state) ! i))
      else stagedSafeModifications (staged st') = stagedSafeModifications (staged editing_state) @ [merged_safe b (editedSafeData (safeModification editing_state))] \<and>
           length (stagedSafeModifications (staged st')) = length (stagedSafeModifications (staged editing_state)) + 1"
    by (elim exE conjE)
  from b have "b = initial_safes ! 1" unfolding editing_safe_2(2) by simp
  then have e: "merged_safe b (editedSafeData (safeModification editing_state)) =
      \<lparr>s_id = JStr ''SAFE-002'', s_name = JStr ''Test-Environment'', s_managingCPM = JStr ''CPM2'',
        s_numberOfVersionsRetention = JUndefined, s_numberOfDaysRetention = JStr ''45''\<rparr>"
    using editing_safe_2(3) by simp
  from replaced_second_of_two [OF up editing_safe_queue(2) editing_safe_queue(1)
      editing_safe_queue(4) editing_safe_queue(5)]
  have "stagedSafeModifications (staged st') =
      [initial_safes ! 0,
       \<lparr>s_id = JStr ''SAFE-002'', s_name = JStr ''Test-Environment'', s_managingCPM = JStr ''CPM2'',
        s_numberOfVersionsRetention = JUndefined, s_numberOfDaysRetention = JStr ''45''\<rparr>]"
    unfolding e .
  with h have safe_replaced: "\<exists>st' notes. handleSaveModifiedSafe (JStr ''SAFE-002'') editing_state = Some (st', notes) \<and>
      stagedSafeModifications (staged st') =
        [initial_safes ! 0,
         \<lparr>s_id = JStr ''SAFE-002'', s_name = JStr ''Test-Environment'', s_managingCPM = JStr ''CPM2'',
        s_numberOfVersionsRetention = JUndefined, s_numberOfDaysRetention = JStr ''45''\<rparr>]"
    by (intro exI conjI)
  from append [THEN conjunct1, THEN mp, OF editing_safe_3(1)] obtain st' ns b where
    b: "find (\<lambda>s. s_id s = JStr ''SAFE-003'') (availableSafesForModification (safeModification editing_state)) = Some b"
    and h: "handleSaveModifiedSafe (JStr ''SAFE-003'') editing_state = Some (st', ns)"
    and up: "if JStr ''SAFE-003'' \<in> set (map s_id (stagedSafeModifications (staged editing_state)))
      then length (stagedSafeModifications (staged st')) = length (stagedSafeModifications (staged editing_state)) \<and>
           (\<forall>i < length (stagedSafeModifications (staged editing_state)).
              stagedSafeModifications (staged st') ! i =
                (if s_id (stagedSafeModifications (staged editing_state) ! i) = JStr ''SAFE-003''
                 then merged_safe b (editedSafeData (safeModification editing_state))
                 else stagedSafeModifications (staged editing_state) ! i))
      else stagedSafeModifications (staged st') = stagedSafeModifications (staged editing_state) @ [merged_safe b (editedSafeData (safeModification editing_state))] \<and>
           length (stagedSafeModifications (staged st')) = length (stagedSafeModifications (staged editing_state)) + 1"
    by (elim exE conjE)
  from b have "b = initial_safes ! 2" unfolding editing_safe_3(2) by simp
  then have e: "merged_safe b (editedSafeData (safeModification editing_state)) =
      \<lparr>s_id = JStr ''SAFE-003'', s_name = JStr ''Archive-2022'', s_managingCPM = JStr ''CPM2'',
        s_numberOfVersionsRetention = JUndefined, s_numberOfDaysRetention = JStr ''45''\<rparr>"
    using editing_safe_3(3) by simp
  from appended_when_new [OF up editing_safe_queue(3)]
  have "stagedSafeModifications (staged st') =
      [initial_safes ! 0, initial_safes ! 1,
       \<lparr>s_id = JStr ''SAFE-003'', s_name = JStr ''Archive-2022'', s_managingCPM = JStr ''CPM2'',
        s_numberOfVersionsRetention = JUndefined, s_numberOfDaysRetention = JStr ''45''\<rparr>]"
    unfolding e editing_safe_queue(1) by simp
  with h have safe_appended: "\<exists>st' notes. handleSaveModifiedSafe (JStr ''SAFE-003'') editing_state = Some (st', notes) \<and>
      stagedSafeModifications (staged st') =
        [initial_safes ! 0, initial_safes ! 1,
         \<lparr>s_id = JStr ''SAFE-003'', s_name = JStr ''Archive-2022'', s_managingCPM = JStr ''CPM2'',
        s_numberOfVersionsRetention = JUndefined, s_numberOfDaysRetention = JStr ''45''\<rparr>]"
    by (intro exI conjI)
  from replace [THEN conjunct2, THEN conjunct1, THEN mp, OF editing_member_2(1)] obtain st' ns b where
    b: "find (\<lambda>x. m_id x = JStr ''MEM-002'') (availableMembersForModification (memberModification editing_state)) = Some b"
    and h: "handleSaveModifiedMember (JStr ''MEM-002'') editing_state = Some (st', ns)"
    and up: "if JStr ''MEM-002'' \<in> set (map m_id (stagedMemberModifications (staged editing_state)))
      then length (stagedMemberModifications (staged st')) = length (stagedMemberModifications (staged editing_state)) \<and>
           (\<forall>i < length (stagedMemberModifications (staged editing_state)).
              stagedMemberModifications (staged st') ! i =
                (if m_id (stagedMemberModifications (staged editing_state) ! i) = JStr ''MEM-002''
                 then merged_member b (editedMemberData (memberModification editing_state))
                 else stagedMemberModifications (staged editing_state) ! i))
      else stagedMemberModifications (staged st') = stagedMemberModifications (staged editing_state) @ [merged_member b (editedMemberData (memberModification editing_state))] \<and>
           length (stagedMemberModifications (staged st')) = length (stagedMemberModifications (staged editing_state)) + 1"
    by (elim exE conjE)
  from b have "b = initial_members ! 1" unfolding editing_member_2(2) by simp
  then have e: "merged_member b (editedMemberData (memberModification editing_state)) =
      (initial_members ! 1)\<lparr>m_role := JStr ''SM-PROV'', m_perms := Some TEMPLATE_SM_PROV\<rparr>"
    using editing_member_2(3) by simp
  from replaced_second_of_two [OF up editing_member_queue(2) editing_member_queue(1)
      editing_member_queue(4) editing_member_queue(5)]
  have "stagedMemberModifications (staged st') =
      [initial_members ! 0,
       (initial_members ! 1)\<lparr>m_role := JStr ''SM-PROV'', m_perms := Some TEMPLATE_SM_PROV\<rparr>]"
    unfolding e .
  with h have member_replaced: "\<exists>st' notes. handleSaveModifiedMember (JStr ''MEM-002'') editing_state = Some (st', notes) \<and>
      stagedMemberModifications (staged st') =
        [initial_members ! 0,
         (initial_members ! 1)\<lparr>m_role := JStr ''SM-PROV'', m_perms := Some TEMPLATE_SM_PROV\<rparr>]"
    by (intro exI conjI)
  from append [THEN conjunct2, THEN conjunct1, THEN mp, OF editing_member_3(1)] obtain st' ns b where
    b: "find (\<lambda>x. m_id x = JStr ''MEM-003'') (availableMembersForModification (memberModification editing_state)) = Some b"
    and h: "handleSaveModifiedMember (JStr ''MEM-003'') editing_state = Some (st', ns)"
    and up: "if JStr ''MEM-003'' \<in> set (map m_id (stagedMemberModifications (staged editing_state)))
      then length (stagedMemberModifications (staged st')) = length (stagedMemberModifications (staged editing_state)) \<and>
           (\<forall>i < length (stagedMemberModifications (staged editing_state)).
              stagedMemberModifications (staged st') ! i =
                (if m_id (stagedMemberModifications (staged editing_state) ! i) = JStr ''MEM-003''
                 then merged_member b (editedMemberData (memberModification editing_state))
                 else stagedMemberModifications (staged editing_state) ! i))
      else stagedMemberModifications (staged st') = stagedMemberModifications (staged editing_state) @ [merged_member b (editedMemberData (memberModification editing_state))] \<and>
           length (stagedMemberModifications (staged st')) = length (stagedMemberModifications (staged editing_state)) + 1"
    by (elim exE conjE)
  from b have "b = initial_members ! 2" unfolding editing_member_3(2) by simp
  then have e: "merged_member b (editedMemberData (memberModification editing_state)) =
      (initial_members ! 2)\<lparr>m_role := JStr ''SM-PROV'', m_perms := Some TEMPLATE_SM_PROV\<rparr>"
    using editing_member_3(3) by simp
  from appended_when_new [OF up editing_member_queue(3)]
  have "stagedMemberModifications (staged st') =
      [initial_members ! 0, initial_members ! 1,
       (initial_members ! 2)\<lparr>m_role := JStr ''SM-PROV'', m_perms := Some TEMPLATE_SM_PROV\<rparr>]"
    unfolding e editing_member_queue(1) by simp
  with h have member_appended: "\<exists>st' notes. handleSaveModifiedMember (JStr ''MEM-003'') editing_state = Some (st', notes) \<and>
      stagedMemberModifications (staged st') =
        [initial_members ! 0, initial_members ! 1,
         (initial_members ! 2)\<lparr>m_role := JStr ''SM-PROV'', m_perms := Some TEMPLATE_SM_PROV\<rparr>]"
    by (intro exI conjI)
  from replace [THEN conjunct2, THEN conjunct2, THEN mp, OF editing_account_2(1)] obtain st' ns b where
    b: "find (\<lambda>a. a_id a = JStr ''ACC-002'') (availableAccountsForModification (accountModification editing_state)) = Some b"
    and h: "handleSaveModifiedAccount (JStr ''ACC-002'') editing_state = Some (st', ns)"
    and up: "if JStr ''ACC-002'' \<in> set (map a_id (stagedAccountModifications (staged editing_state)))
      then length (stagedAccountModifications (staged st')) = length (stagedAccountModifications (staged editing_state)) \<and>
           (\<forall>i < length (stagedAccountModifications (staged editing_state)).
              stagedAccountModifications (staged st') ! i =
                (if a_id (stagedAccountModifications (staged editing_state) ! i) = JStr ''ACC-002''
                 then merged_account b (editedAccountData (accountModification editing_state))
                 else stagedAccountModifications (staged editing_state) ! i))
      else stagedAccountModifications (staged st') = stagedAccountModifications (staged editing_state) @ [merged_account b (editedAccountData (accountModification editing_state))] \<and>
           length (stagedAccountModifications (staged st')) = length (stagedAccountModifications (staged editing_state)) + 1"
    by (elim exE conjE)
  from b have "b = initial_accounts ! 1" unfolding editing_account_2(2) by simp
  then have e: "merged_account b (editedAccountData (accountModification editing_state)) =
      (initial_accounts ! 1)\<lparr>a_username := JStr ''db_owner''\<rparr>"
    using editing_account_2(3) by simp
  from replaced_second_of_two [OF up editing_account_queue(2) editing_account_queue(1)
      editing_account_queue(4) editing_account_queue(5)]
  have "stagedAccountModifications (staged st') =
      [initial_accounts ! 0,
       (initial_accounts ! 1)\<lparr>a_username := JStr ''db_owner''\<rparr>]"
    unfolding e .
  with h have account_replaced: "\<exists>st' notes. handleSaveModifiedAccount (JStr ''ACC-002'') editing_state = Some (st', notes) \<and>
      stagedAccountModifications (staged st') =
        [initial_accounts ! 0,
         (initial_accounts ! 1)\<lparr>a_username := JStr ''db_owner''\<rparr>]"
    by (intro exI conjI)
  from append [THEN conjunct2, THEN conjunct2, THEN mp, OF editing_account_3(1)] obtain st' ns b where
    b: "find (\<lambda>a. a_id a = JStr ''ACC-003'') (availableAccountsForModification (accountModification editing_state)) = Some b"
    and h: "handleSaveModifiedAccount (JStr ''ACC-003'') editing_state = Some (st', ns)"
    and up: "if JStr ''ACC-003'' \<in> set (map a_id (stagedAccountModifications (staged editing_state)))
      then length (stagedAccountModifications (staged st')) = length (stagedAccountModifications (staged editing_state)) \<and>
           (\<forall>i < length (stagedAccountModifications (staged editing_state)).
              stagedAccountModifications (staged st') ! i =
                (if a_id (stagedAccountModifications (staged editing_state) ! i) = JStr ''ACC-003''
                 then merged_account b (editedAccountData (accountModification editing_state))
                 else stagedAccountModifications (staged editing_state) ! i))
      else stagedAccountModifications (staged st') = stagedAccountModifications (staged editing_state) @ [merged_account b (editedAccountData (accountModification editing_state))] \<and>
           length (stagedAccountModifications (staged st')) = length (stagedAccountModifications (staged editing_state)) + 1"
    by (elim exE conjE)
  from b have "b = initial_accounts ! 2" unfolding editing_account_3(2) by simp
  then have e: "merged_account b (editedAccountData (accountModification editing_state)) =
      (initial_accounts ! 2)\<lparr>a_username := JStr ''db_owner''\<rparr>"
    using editing_account_3(3) by simp
  from appended_when_new [OF up editing_account_queue(3)]
  have "stagedAccountModifications (staged st') =
      [initial_accounts ! 0, initial_accounts ! 1,
       (initial_accounts ! 2)\<lparr>a_username := JStr ''db_owner''\<rparr>]"
    unfolding e editing_account_queue(1) by simp
  with h have account_appended: "\<exists>st' notes. handleSaveModifiedAccount (JStr ''ACC-003'') editing_state = Some (st', notes) \<and>
      stagedAccountModifications (staged st') =
        [initial_accounts ! 0, initial_accounts ! 1,
         (initial_accounts ! 2)\<lparr>a_username := JStr ''db_owner''\<rparr>]"
    by (intro exI conjI)
  show ?thesis
    by (intro conjI)
      (rule editing_safe_2(1) editing_safe_3(1) editing_member_2(1) editing_member_3(1)
         editing_account_2(1) editing_account_3(1)
         safe_replaced member_replaced account_replaced
         safe_appended member_appended account_appended)+
qed

section \<open>Deployment\<close>

lemma makeAPIRequest_sent:
  "snd (snd (makeAPIRequest fetch a args w)) = [api_request a args]"
  by (simp add: makeAPIRequest_def Let_def split: prod.splits fetch_result.splits)

lemma for_each_sent:
  "snd (snd (for_each (\<lambda>x. makeAPIRequest fetch a (f x)) starting succeeded failed xs acc)) =
     snd (snd acc) @ map (\<lambda>x. api_request a (f x)) xs"
proof (induction xs arbitrary: acc)
  case Nil
  show ?case by simp
next
  case (Cons x xs)
  obtain w ns rs where acc: "acc = (w, ns, rs)" by (cases acc) auto
  obtain r w' sent where call: "makeAPIRequest fetch a (f x) w = (r, w', sent)"
    by (cases "makeAPIRequest fetch a (f x) w") auto
  with makeAPIRequest_sent [of fetch a "f x" w] have sent: "sent = [api_request a (f x)]"
    by simp
  show ?case
    by (cases r) (simp_all add: acc call sent Cons.IH)
qed

lemma for_each_notes:
  "length (fst (snd (for_each call starting succeeded failed xs acc))) =
     length (fst (snd acc)) + 2 * length xs"
proof (induction xs arbitrary: acc)
  case Nil
  show ?case by simp
next
  case (Cons x xs)
  obtain w ns rs where acc: "acc = (w, ns, rs)" by (cases acc) auto
  obtain r w' sent where call: "call x w = (r, w', sent)" by (cases "call x w") auto
  show ?case
    by (cases r) (simp_all add: acc call Cons.IH)
qed

lemma clear_all_queues:
  "q\<lparr>stagedSafes := [], stagedMembers := [], stagedAccounts := [],
     stagedSafeRemovals := [], stagedMemberRemovals := [], stagedAccountRemovals := [],
     stagedSafeModifications := [], stagedMemberModifications := [],
     stagedAccountModifications := []\<rparr> = empty_queues"
  by (simp add: empty_queues_def)

text \<open>
  C2: when the nine queue lengths sum to zero, the deploy handler sends no request,
  shows the warning, and returns the application state and the world as they were.
\<close>

theorem deploy_nothing_staged:
  "totalItems (staged st) = 0 \<Longrightarrow>
     deploy fetch st w = (st, w, [(''No staged items to deploy!'', ''warning'')], [])"
  by (simp add: deploy_def Let_def)

theorem deploy_nothing_staged_witness:
  "totalItems (staged initial_state) = 0 \<and>
   deploy server_down initial_state 0 =
     (initial_state, 0, [(''No staged items to deploy!'', ''warning'')], [])"
proof -
  have empty: "totalItems (staged initial_state) = 0"
    by (simp add: totalItems_def initial_state_def empty_queues_def)
  with deploy_nothing_staged [of initial_state server_down 0] show ?thesis by simp
qed

text \<open>
  C1: when at least one item is staged, whatever the server answers to each request
  (every \<open>fetch\<close>, in every state of the world), the deploy handler sends exactly one
  request for each staged item, in the order safe creations, member creations, account
  creations, safe removals, member removals, account removals, safe modifications,
  member modifications, account modifications, and in queue order within a queue; the
  number of requests is the number of staged items; two notifications are shown for
  each item between the opening and the closing one; and afterwards the nine queues are
  empty and the rest of the state is as before.
\<close>

theorem deploy_every_item_in_order:
  assumes "0 < totalItems (staged st)"
  shows "case deploy fetch st w of
           (st', w', notes, reqs) \<Rightarrow>
             reqs =
               map (\<lambda>x. api_request (auth st) (create_safe_call x)) (stagedSafes (staged st)) @
               map (\<lambda>x. api_request (auth st) (add_member_call x)) (stagedMembers (staged st)) @
               map (\<lambda>x. api_request (auth st) (create_account_call x)) (stagedAccounts (staged st)) @
               map (\<lambda>x. api_request (auth st) (delete_safe_call x)) (stagedSafeRemovals (staged st)) @
               map (\<lambda>x. api_request (auth st) (remove_member_call x))
                 (stagedMemberRemovals (staged st)) @
               map (\<lambda>x. api_request (auth st) (delete_account_call x))
                 (stagedAccountRemovals (staged st)) @
               map (\<lambda>x. api_request (auth st) (update_safe_call x))
                 (stagedSafeModifications (staged st)) @
               map (\<lambda>x. api_request (auth st) (update_member_call x))
                 (stagedMemberModifications (staged st)) @
               map (\<lambda>x. api_request (auth st) (update_account_call x))
                 (stagedAccountModifications (staged st)) \<and>
             length reqs = totalItems (staged st) \<and>
             length notes = 2 * totalItems (staged st) + 2 \<and>
             st' = st\<lparr>staged := empty_queues\<rparr>"
proof -
  let ?q = "staged st" and ?a = "auth st"
  define io0 :: "'a \<times> notification list \<times> request list" where
    "io0 = (w, [(''Starting deployment of '' @ decimal (totalItems ?q) @ '' items...'', ''info'')], [])"
  define io1 where "io1 = deploy_safe_creates fetch ?a (stagedSafes ?q) io0"
  define io2 where "io2 = deploy_member_creates fetch ?a (stagedMembers ?q) io1"
  define io3 where "io3 = deploy_account_creates fetch ?a (stagedAccounts ?q) io2"
  define io4 where "io4 = deploy_safe_removals fetch ?a (stagedSafeRemovals ?q) io3"
  define io5 where "io5 = deploy_member_removals fetch ?a (stagedMemberRemovals ?q) io4"
  define io6 where "io6 = deploy_account_removals fetch ?a (stagedAccountRemovals ?q) io5"
  define io7 where "io7 = deploy_safe_modifications fetch ?a (stagedSafeModifications ?q) io6"
  define io8 where "io8 = deploy_member_modifications fetch ?a (stagedMemberModifications ?q) io7"
  define io9 where "io9 = deploy_account_modifications fetch ?a (stagedAccountModifications ?q) io8"
  have r0: "snd (snd io0) = []" and n0: "length (fst (snd io0)) = 1"
    by (simp_all add: io0_def)
  have r1: "snd (snd io1) = snd (snd io0) @
      map (\<lambda>x. api_request ?a (create_safe_call x)) (stagedSafes ?q)"
    and n1: "length (fst (snd io1)) = length (fst (snd io0)) + 2 * length (stagedSafes ?q)"
    unfolding io1_def deploy_safe_creates_def by (rule for_each_sent, rule for_each_notes)
  have r2: "snd (snd io2) = snd (snd io1) @
      map (\<lambda>x. api_request ?a (add_member_call x)) (stagedMembers ?q)"
    and n2: "length (fst (snd io2)) = length (fst (snd io1)) + 2 * length (stagedMembers ?q)"
    unfolding io2_def deploy_member_creates_def by (rule for_each_sent, rule for_each_notes)
  have r3: "snd (snd io3) = snd (snd io2) @
      map (\<lambda>x. api_request ?a (create_account_call x)) (stagedAccounts ?q)"
    and n3: "length (fst (snd io3)) = length (fst (snd io2)) + 2 * length (stagedAccounts ?q)"
    unfolding io3_def deploy_account_creates_def by (rule for_each_sent, rule for_each_notes)
  have r4: "snd (snd io4) = snd (snd io3) @
      map (\<lambda>x. api_request ?a (delete_safe_call x)) (stagedSafeRemovals ?q)"
    and n4: "length (fst (snd io4)) = length (fst (snd io3)) + 2 * length (stagedSafeRemovals ?q)"
    unfolding io4_def deploy_safe_removals_def by (rule for_each_sent, rule for_each_notes)
  have r5: "snd (snd io5) = snd (snd io4) @
      map (\<lambda>x. api_request ?a (remove_member_call x)) (stagedMemberRemovals ?q)"
    and n5: "length (fst (snd io5)) = length (fst (snd io4)) + 2 * length (stagedMemberRemovals ?q)"
    unfolding io5_def deploy_member_removals_def by (rule for_each_sent, rule for_each_notes)
  have r6: "snd (snd io6) = snd (snd io5) @
      map (\<lambda>x. api_request ?a (delete_account_call x)) (stagedAccountRemovals ?q)"
    and n6: "length (fst (snd io6)) = length (fst (snd io5)) + 2 * length (stagedAccountRemovals ?q)"
    unfolding io6_def deploy_account_removals_def by (rule for_each_sent, rule for_each_notes)
  have r7: "snd (snd io7) = snd (snd io6) @
      map (\<lambda>x. api_request ?a (update_safe_call x)) (stagedSafeModifications ?q)"
    and n7: "length (fst (snd io7)) = length (fst (snd io6)) + 2 * length (stagedSafeModifications ?q)"
    unfolding io7_def deploy_safe_modifications_def by (rule for_each_sent, rule for_each_notes)
  have r8: "snd (snd io8) = snd (snd io7) @
      map (\<lambda>x. api_request ?a (update_member_call x)) (stagedMemberModifications ?q)"
    and n8: "length (fst (snd io8)) = length (fst (snd io7)) + 2 * length (stagedMemberModifications ?q)"
    unfolding io8_def deploy_member_modifications_def by (rule for_each_sent, rule for_each_notes)
  have r9: "snd (snd io9) = snd (snd io8) @
      map (\<lambda>x. api_request ?a (update_account_call x)) (stagedAccountModifications ?q)"
    and n9: "length (fst (snd io9)) = length (fst (snd io8)) + 2 * length (stagedAccountModifications ?q)"
    unfolding io9_def deploy_account_modifications_def by (rule for_each_sent, rule for_each_notes)
  obtain w' ns rs where io9: "io9 = (w', ns, rs)" by (cases io9) auto
  have result: "deploy fetch st w =
      (st\<lparr>staged := empty_queues\<rparr>, w',
       ns @ [(check_mark @ '' Deployment completed! '' @ decimal (totalItems ?q) @
              '' items processed.'', ''success'')],
       rs)"
    using assms io9
    unfolding deploy_def Let_def io9_def io8_def io7_def io6_def io5_def io4_def io3_def
      io2_def io1_def io0_def
    by (simp add: clear_all_queues)
  have rs: "rs = snd (snd io9)" and ns: "ns = fst (snd io9)" by (simp_all add: io9)
  have sent: "rs =
      map (\<lambda>x. api_request ?a (create_safe_call x)) (stagedSafes ?q) @
      map (\<lambda>x. api_request ?a (add_member_call x)) (stagedMembers ?q) @
      map (\<lambda>x. api_request ?a (create_account_call x)) (stagedAccounts ?q) @
      map (\<lambda>x. api_request ?a (delete_safe_call x)) (stagedSafeRemovals ?q) @
      map (\<lambda>x. api_request ?a (remove_member_call x)) (stagedMemberRemovals ?q) @
      map (\<lambda>x. api_request ?a (delete_account_call x)) (stagedAccountRemovals ?q) @
      map (\<lambda>x. api_request ?a (update_safe_call x)) (stagedSafeModifications ?q) @
      map (\<lambda>x. api_request ?a (update_member_call x)) (stagedMemberModifications ?q) @
      map (\<lambda>x. api_request ?a (update_account_call x)) (stagedAccountModifications ?q)"
    unfolding rs r9 r8 r7 r6 r5 r4 r3 r2 r1 r0 by simp
  have count: "length rs = totalItems ?q"
    unfolding sent by (simp add: totalItems_def)
  have shown: "length ns = 2 * totalItems ?q + 1"
    unfolding ns n9 n8 n7 n6 n5 n4 n3 n2 n1 n0 by (simp add: totalItems_def)
  show ?thesis
    unfolding result using sent count shown by simp
qed

text \<open>
  Three staged items, in the first, the fifth and the ninth queue, and a server that
  fails every request: three requests are sent and the queues are empty afterwards.
\<close>

theorem deploy_every_item_in_order_witness:
  "0 < totalItems (staged three_staged) \<and>
   (case deploy server_down three_staged 0 of
      (st', w', notes, reqs) \<Rightarrow>
        length reqs = 3 \<and> length notes = 8 \<and> st' = three_staged\<lparr>staged := empty_queues\<rparr>)"
proof -
  have total: "totalItems (staged three_staged) = 3"
    by (simp add: totalItems_def three_staged_def empty_queues_def)
  then have staged: "0 < totalItems (staged three_staged)" by simp
  from deploy_every_item_in_order [OF staged, of server_down 0] total
  show ?thesis by (auto split: prod.splits)
qed

end
